theory Spec2Isabelle
  imports Main
begin

section \<open>Python values used by task_simplifier.py\<close>

text \<open>
  A Python \<open>str\<close> is a sequence of Unicode code points, so \<open>len\<close> is the length of
  the list. ASCII pieces of a literal are written with \<open>ascii\<close>, the others as code
  points.
\<close>

type_synonym pystr = "nat list"

definition ascii :: "string \<Rightarrow> pystr" where
  "ascii s = map of_char s"

text \<open>\<open>str.isspace\<close> of one character: the code points CPython treats as whitespace.\<close>

definition isspace :: "nat \<Rightarrow> bool" where
  "isspace c \<longleftrightarrow> c \<in> set [9, 10, 11, 12, 13, 28, 29, 30, 31, 32, 133, 160, 5760,
     8192, 8193, 8194, 8195, 8196, 8197, 8198, 8199, 8200, 8201, 8202,
     8232, 8233, 8239, 8287, 12288]"

text \<open>\<open>s.strip()\<close>: leading and trailing whitespace removed.\<close>

definition strip :: "pystr \<Rightarrow> pystr" where
  "strip s = rev (dropWhile isspace (rev (dropWhile isspace s)))"

text \<open>\<open>s.startswith(p)\<close> and \<open>p in s\<close> (substring test).\<close>

definition startswith :: "pystr \<Rightarrow> pystr \<Rightarrow> bool" where
  "startswith s p \<longleftrightarrow> take (length p) s = p"

fun substr_in :: "pystr \<Rightarrow> pystr \<Rightarrow> bool" where
  "substr_in p [] = (p = [])"
| "substr_in p (c # cs) = (startswith (c # cs) p \<or> substr_in p cs)"

text \<open>
  \<open>s.upper()\<close>, which the program applies to provider names only (ASCII lower-case
  words): the letters a-z become A-Z.
\<close>

definition upper :: "pystr \<Rightarrow> pystr" where
  "upper s = map (\<lambda>c. if 97 \<le> c \<and> c \<le> 122 then c - 32 else c) s"

text \<open>
  \<open>s.lower()\<close>, which the program applies to the text of an exception before it looks
  for an ASCII word in it. The letters A-Z become a-z. Two characters outside ASCII have
  ASCII letters in their lower case: U+212A becomes \<open>k\<close>, and U+0130 becomes \<open>i\<close>
  followed by U+0307. Python maps every other character to characters outside ASCII;
  the model leaves it as it is, which no search for an ASCII word can tell apart.
\<close>

definition lower_char :: "nat \<Rightarrow> pystr" where
  "lower_char c =
     (if 65 \<le> c \<and> c \<le> 90 then [c + 32]
      else if c = 8490 then [107]
      else if c = 304 then [105, 775]
      else [c])"

definition lower :: "pystr \<Rightarrow> pystr" where
  "lower s = concat (map lower_char s)"

text \<open>\<open>sep.join(xs)\<close>.\<close>

fun join :: "pystr \<Rightarrow> pystr list \<Rightarrow> pystr" where
  "join sep [] = []"
| "join sep [x] = x"
| "join sep (x # y # ys) = x @ sep @ join sep (y # ys)"

text \<open>\<open>str(n)\<close> of an integer: decimal digits, with a minus sign when negative.\<close>

fun digits :: "nat \<Rightarrow> pystr" where
  "digits n = (if n < 10 then [48 + n] else digits (n div 10) @ [48 + n mod 10])"

definition str_int :: "int \<Rightarrow> pystr" where
  "str_int i = (if i < 0 then 45 # digits (nat (- i)) else digits (nat i))"

text \<open>
  A Python \<open>float\<close>: a finite double is \<open>m * 2 ^ e\<close> for integers \<open>m\<close> and \<open>e\<close>;
  the others are the two infinities and NaN. Comparisons with NaN are false.
\<close>

datatype pyfloat = Finite int int | PosInf | NegInf | NaN

definition float_trunc :: "int \<Rightarrow> int \<Rightarrow> int" where
  "float_trunc m e =
     (if 0 \<le> e then m * 2 ^ nat e
      else if 0 \<le> m then m div 2 ^ nat (- e)
      else - ((- m) div 2 ^ nat (- e)))"

fun float_lt_int :: "pyfloat \<Rightarrow> int \<Rightarrow> bool" where
  "float_lt_int (Finite m e) k = (if 0 \<le> e then m * 2 ^ nat e < k else m < k * 2 ^ nat (- e))"
| "float_lt_int PosInf k = False"
| "float_lt_int NegInf k = True"
| "float_lt_int NaN k = False"

fun float_gt_int :: "pyfloat \<Rightarrow> int \<Rightarrow> bool" where
  "float_gt_int (Finite m e) k = (if 0 \<le> e then k < m * 2 ^ nat e else k * 2 ^ nat (- e) < m)"
| "float_gt_int PosInf k = True"
| "float_gt_int NegInf k = False"
| "float_gt_int NaN k = False"

text \<open>
  The values \<open>json.load\<close> produces, which is what a configuration and a response body
  are made of. A \<open>dict\<close> is an association list; a lookup takes the first entry
  of a key.
\<close>

datatype json =
    JNull
  | JBool bool
  | JInt int
  | JFloat pyfloat
  | JStr pystr
  | JList "json list"
  | JObj "(pystr \<times> json) list"

text \<open>
  Exceptions. \<open>Raised k op v\<close> is raised by the interpreter when the built-in operation
  \<open>op\<close> fails on the operand \<open>v\<close>; \<open>Thrown k m\<close> is raised by a library
  (asyncio, aiohttp, openai, the import system) and carries its own text \<open>m\<close>.
\<close>

datatype exc_kind =
    AttributeError | TypeError | ValueError | OverflowError
  | KeyError | IndexError | TimeoutError | OtherError

datatype py_exception = Raised exc_kind string json | Thrown exc_kind pystr

fun exc_kind_of :: "py_exception \<Rightarrow> exc_kind" where
  "exc_kind_of (Raised k op v) = k"
| "exc_kind_of (Thrown k m) = k"

text \<open>
  What the program takes from the Python interpreter and does not define itself, as a
  parameter of the model: the text of a built-in exception (\<open>str(e)\<close>), the text of a
  float, list or dict in an f-string, and the parsers behind \<open>int(s)\<close>, \<open>float(s)\<close>
  and \<open>float(n)\<close> (\<open>None\<close> when they raise).
\<close>

record interpreter =
  exc_text :: "exc_kind \<Rightarrow> string \<Rightarrow> json \<Rightarrow> pystr"
  repr_text :: "json \<Rightarrow> pystr"
  int_of_str :: "pystr \<Rightarrow> int option"
  float_of_str :: "pystr \<Rightarrow> pyfloat option"
  float_of_int :: "int \<Rightarrow> pyfloat option"

fun str_exc :: "'a interpreter_scheme \<Rightarrow> py_exception \<Rightarrow> pystr" where
  "str_exc rt (Raised k op v) = exc_text rt k op v"
| "str_exc rt (Thrown k m) = m"

text \<open>A value inside an f-string: \<open>format(v)\<close>.\<close>

fun format :: "'a interpreter_scheme \<Rightarrow> json \<Rightarrow> pystr" where
  "format rt (JStr s) = s"
| "format rt (JInt n) = str_int n"
| "format rt JNull = ascii ''None''"
| "format rt (JBool b) = (if b then ascii ''True'' else ascii ''False'')"
| "format rt v = repr_text rt v"

text \<open>Sequencing of a computation that may raise.\<close>

definition and_then :: "('e + 'a) \<Rightarrow> ('a \<Rightarrow> 'e + 'b) \<Rightarrow> 'e + 'b" where
  "and_then m f = (case m of Inl e \<Rightarrow> Inl e | Inr x \<Rightarrow> f x)"

text \<open>\<open>d.get(k, default)\<close>, \<open>d[k]\<close>, \<open>xs[0]\<close>, \<open>v.strip()\<close>, \<open>int(v)\<close>, \<open>float(v)\<close>.\<close>

definition dict_get :: "json \<Rightarrow> pystr \<Rightarrow> json \<Rightarrow> py_exception + json" where
  "dict_get d k dflt =
     (case d of
        JObj kvs \<Rightarrow> Inr (case map_of kvs k of Some v \<Rightarrow> v | None \<Rightarrow> dflt)
      | _ \<Rightarrow> Inl (Raised AttributeError ''get'' d))"

definition getitem :: "json \<Rightarrow> pystr \<Rightarrow> py_exception + json" where
  "getitem d k =
     (case d of
        JObj kvs \<Rightarrow> (case map_of kvs k of Some v \<Rightarrow> Inr v | None \<Rightarrow> Inl (Raised KeyError ''getitem'' (JStr k)))
      | _ \<Rightarrow> Inl (Raised TypeError ''getitem'' d))"

definition getitem0 :: "json \<Rightarrow> py_exception + json" where
  "getitem0 d =
     (case d of
        JList xs \<Rightarrow> (case xs of [] \<Rightarrow> Inl (Raised IndexError ''getitem'' d) | x # _ \<Rightarrow> Inr x)
      | JStr s \<Rightarrow> (case s of [] \<Rightarrow> Inl (Raised IndexError ''getitem'' d) | c # _ \<Rightarrow> Inr (JStr [c]))
      | JObj kvs \<Rightarrow> Inl (Raised KeyError ''getitem'' (JInt 0))
      | _ \<Rightarrow> Inl (Raised TypeError ''getitem'' d))"

definition str_strip :: "json \<Rightarrow> py_exception + pystr" where
  "str_strip v = (case v of JStr s \<Rightarrow> Inr (strip s) | _ \<Rightarrow> Inl (Raised AttributeError ''strip'' v))"

definition py_int :: "'a interpreter_scheme \<Rightarrow> json \<Rightarrow> py_exception + int" where
  "py_int rt v =
     (case v of
        JInt n \<Rightarrow> Inr n
      | JBool b \<Rightarrow> Inr (if b then 1 else 0)
      | JFloat f \<Rightarrow>
          (case f of
             Finite m e \<Rightarrow> Inr (float_trunc m e)
           | NaN \<Rightarrow> Inl (Raised ValueError ''int'' v)
           | _ \<Rightarrow> Inl (Raised OverflowError ''int'' v))
      | JStr s \<Rightarrow>
          (case int_of_str rt s of
             Some n \<Rightarrow> Inr n
           | None \<Rightarrow> Inl (Raised ValueError ''int'' v))
      | _ \<Rightarrow> Inl (Raised TypeError ''int'' v))"

definition py_float :: "'a interpreter_scheme \<Rightarrow> json \<Rightarrow> py_exception + pyfloat" where
  "py_float rt v =
     (case v of
        JFloat f \<Rightarrow> Inr f
      | JInt n \<Rightarrow>
          (case float_of_int rt n of
             Some f \<Rightarrow> Inr f
           | None \<Rightarrow> Inl (Raised OverflowError ''float'' v))
      | JBool b \<Rightarrow> Inr (Finite (if b then 1 else 0) 0)
      | JStr s \<Rightarrow>
          (case float_of_str rt s of
             Some f \<Rightarrow> Inr f
           | None \<Rightarrow> Inl (Raised ValueError ''float'' v))
      | _ \<Rightarrow> Inl (Raised TypeError ''float'' v))"

section \<open>The providers\<close>

text \<open>\<open>class AIProvider(Enum)\<close>, its \<open>value\<close>, and the members in definition order.\<close>

datatype AIProvider =
  DEEPSEEK | DOUBAO | YUANBAO | OPENAI | GEMINI | CLAUDE | GLM | WENXIN | TONGYI

fun "value" :: "AIProvider \<Rightarrow> pystr" where
  "value DEEPSEEK = ascii ''deepseek''"
| "value DOUBAO = ascii ''doubao''"
| "value YUANBAO = ascii ''yuanbao''"
| "value OPENAI = ascii ''openai''"
| "value GEMINI = ascii ''gemini''"
| "value CLAUDE = ascii ''claude''"
| "value GLM = ascii ''glm''"
| "value WENXIN = ascii ''wenxin''"
| "value TONGYI = ascii ''tongyi''"

definition all_providers :: "AIProvider list" where
  "all_providers = [DEEPSEEK, DOUBAO, YUANBAO, OPENAI, GEMINI, CLAUDE, GLM, WENXIN, TONGYI]"

section \<open>Validation of one configuration\<close>

text \<open>
  The result dict of \<open>_validate_config\<close>: \<open>{"valid": ..., "error": ..., "field": ...}\<close>.
  A key that the dict does not have is \<open>None\<close>. The methods of the source whose names
  start with an underscore have their names without it here: \<open>validate_config\<close>,
  \<open>call_deepseek\<close> and so on.
\<close>

record validation_result =
  valid :: bool
  error :: "pystr option"
  field :: "pystr option"

definition invalid :: "pystr \<Rightarrow> pystr \<Rightarrow> validation_result" where
  "invalid e f = \<lparr>valid = False, error = Some e, field = Some f\<rparr>"

subsection \<open>Message texts\<close>

text \<open>
  The fixed parts of the error messages, with the line of task_simplifier.py where each
  is written and its meaning.
\<close>

definition msg_api_key_empty :: pystr where \<comment> \<open>line 51: platform's API key is empty\<close>
  "msg_api_key_empty = [24179, 21488, 30340] @ ascii ''API'' @ [23494, 38053, 20026, 31354, 65292, 35831, 35774, 32622, 26377, 25928, 30340] @ ascii ''API'' @ [23494, 38053]"

definition msg_deepseek_key_format :: pystr where \<comment> \<open>line 60: wrong key format, should be sk-xxxxx\<close>
  "msg_deepseek_key_format = ascii ''DeepSeek API'' @ [23494, 38053, 26684, 24335, 38169, 35823, 65292, 27491, 30830, 26684, 24335, 24212, 20026] @ ascii '': sk-xxxxx''"

definition msg_deepseek_key_length :: pystr where \<comment> \<open>line 66: key too short\<close>
  "msg_deepseek_key_length = ascii ''DeepSeek API'' @ [23494, 38053, 38271, 24230, 19981, 36275, 65292, 35831, 26816, 26597, 26159, 21542, 23436, 25972]"

definition msg_openai_key_format :: pystr where \<comment> \<open>line 74\<close>
  "msg_openai_key_format = ascii ''OpenAI API'' @ [23494, 38053, 26684, 24335, 38169, 35823, 65292, 27491, 30830, 26684, 24335, 24212, 20026] @ ascii '': sk-xxxxx''"

definition msg_openai_key_length :: pystr where \<comment> \<open>line 80\<close>
  "msg_openai_key_length = ascii ''OpenAI API'' @ [23494, 38053, 38271, 24230, 19981, 36275, 65292, 35831, 26816, 26597, 26159, 21542, 23436, 25972]"

definition msg_doubao_key_length :: pystr where \<comment> \<open>line 88\<close>
  "msg_doubao_key_length = [35910, 21253] @ ascii ''API'' @ [23494, 38053, 38271, 24230, 19981, 36275, 65292, 35831, 26816, 26597, 26159, 21542, 23436, 25972]"

definition msg_base_url_empty :: pystr where \<comment> \<open>line 97: platform's interface address is empty\<close>
  "msg_base_url_empty = [24179, 21488, 30340, 25509, 21475, 22320, 22336, 20026, 31354, 65292, 35831, 35774, 32622, 27491, 30830, 30340, 25509, 21475, 22320, 22336]"

definition msg_url_scheme :: pystr where \<comment> \<open>line 105: address must start with http:// or https://, current address:\<close>
  "msg_url_scheme = [25509, 21475, 22320, 22336, 26684, 24335, 38169, 35823, 65292, 24517, 39035, 20197] @ ascii ''http://'' @ [25110] @ ascii ''https://'' @ [24320, 22836, 65292, 24403, 21069, 22320, 22336] @ ascii '': ''"

definition msg_deepseek_url :: pystr where \<comment> \<open>line 114: address should contain api.deepseek.com, current address:\<close>
  "msg_deepseek_url = ascii ''DeepSeek'' @ [25509, 21475, 22320, 22336, 19981, 27491, 30830, 65292, 27491, 30830, 22320, 22336, 24212, 21253, 21547] @ ascii ''api.deepseek.com'' @ [65292, 24403, 21069, 22320, 22336] @ ascii '': ''"

definition msg_openai_url :: pystr where \<comment> \<open>line 122\<close>
  "msg_openai_url = ascii ''OpenAI'' @ [25509, 21475, 22320, 22336, 19981, 27491, 30830, 65292, 27491, 30830, 22320, 22336, 24212, 21253, 21547] @ ascii ''api.openai.com'' @ [65292, 24403, 21069, 22320, 22336] @ ascii '': ''"

definition msg_doubao_url :: pystr where \<comment> \<open>line 130\<close>
  "msg_doubao_url = [35910, 21253, 25509, 21475, 22320, 22336, 19981, 27491, 30830, 65292, 27491, 30830, 22320, 22336, 24212, 21253, 21547] @ ascii ''volcengine.com'' @ [65292, 24403, 21069, 22320, 22336] @ ascii '': ''"

definition msg_model_empty :: pystr where \<comment> \<open>line 139: platform's model name is empty\<close>
  "msg_model_empty = [24179, 21488, 30340, 27169, 22411, 21517, 31216, 20026, 31354, 65292, 35831, 36873, 25321, 26377, 25928, 30340, 27169, 22411]"

definition msg_deepseek_model :: pystr where \<comment> \<open>line 149: wrong model name, current model:\<close>
  "msg_deepseek_model = ascii ''DeepSeek'' @ [27169, 22411, 21517, 31216, 19981, 27491, 30830, 65292, 24120, 29992, 27169, 22411] @ ascii '': deepseek-chat, deepseek-coder'' @ [65292, 24403, 21069, 27169, 22411] @ ascii '': ''"

definition msg_openai_model :: pystr where \<comment> \<open>line 158\<close>
  "msg_openai_model = ascii ''OpenAI'' @ [27169, 22411, 21517, 31216, 19981, 27491, 30830, 65292, 24120, 29992, 27169, 22411] @ ascii '': gpt-3.5-turbo, gpt-4, gpt-4-turbo, gpt-4o'' @ [65292, 24403, 21069, 27169, 22411] @ ascii '': ''"

definition msg_doubao_model :: pystr where \<comment> \<open>line 166\<close>
  "msg_doubao_model = [35910, 21253, 27169, 22411, 21517, 31216, 19981, 27491, 30830, 65292, 24212, 20197] @ ascii ''ep-'' @ [25110] @ ascii ''doubao-'' @ [24320, 22836, 65292, 24403, 21069, 27169, 22411] @ ascii '': ''"

definition msg_timeout_range :: "pystr \<Rightarrow> pystr" where \<comment> \<open>line 177: timeout unreasonable, 1-300 seconds suggested, current setting: t seconds\<close>
  "msg_timeout_range t = [36229, 26102, 35774, 32622, 19981, 21512, 29702, 65292, 24314, 35758, 35774, 32622] @ ascii ''1-300'' @ [31186, 20043, 38388, 65292, 24403, 21069, 35774, 32622] @ ascii '': '' @ t @ [31186]"

definition msg_timeout_format :: "pystr \<Rightarrow> pystr" where \<comment> \<open>line 183: timeout format error, enter a number, current setting: t\<close>
  "msg_timeout_format t = [36229, 26102, 35774, 32622, 26684, 24335, 38169, 35823, 65292, 35831, 36755, 20837, 25968, 23383, 65292, 24403, 21069, 35774, 32622] @ ascii '': '' @ t"

definition msg_max_tokens_range :: "pystr \<Rightarrow> pystr" where \<comment> \<open>line 194\<close>
  "msg_max_tokens_range t = [26368, 22823] @ ascii ''Token'' @ [25968, 35774, 32622, 19981, 21512, 29702, 65292, 24314, 35758, 35774, 32622] @ ascii ''1-8000'' @ [20043, 38388, 65292, 24403, 21069, 35774, 32622] @ ascii '': '' @ t"

definition msg_max_tokens_format :: "pystr \<Rightarrow> pystr" where \<comment> \<open>line 200\<close>
  "msg_max_tokens_format t = [26368, 22823] @ ascii ''Token'' @ [25968, 26684, 24335, 38169, 35823, 65292, 35831, 36755, 20837, 25968, 23383, 65292, 24403, 21069, 35774, 32622] @ ascii '': '' @ t"

definition msg_temperature_range :: "pystr \<Rightarrow> pystr" where \<comment> \<open>line 211\<close>
  "msg_temperature_range t = [28201, 24230, 21442, 25968, 35774, 32622, 19981, 21512, 29702, 65292, 24212, 35774, 32622] @ ascii ''0-2'' @ [20043, 38388, 65292, 24403, 21069, 35774, 32622] @ ascii '': '' @ t"

definition msg_temperature_format :: "pystr \<Rightarrow> pystr" where \<comment> \<open>line 217\<close>
  "msg_temperature_format t = [28201, 24230, 21442, 25968, 26684, 24335, 38169, 35823, 65292, 35831, 36755, 20837, 25968, 23383, 65292, 24403, 21069, 35774, 32622] @ ascii '': '' @ t"

definition msg_validate_exception :: "pystr \<Rightarrow> pystr" where \<comment> \<open>line 226: configuration validation exception: e\<close>
  "msg_validate_exception e = [37197, 32622, 39564, 35777, 24322, 24120] @ ascii '': '' @ e"

subsection \<open>The checks, in the order of the source\<close>

text \<open>
  Each block of \<open>_validate_config\<close> is one function. It returns \<open>Inr (Some r)\<close> when the
  block returns the dict \<open>r\<close>, \<open>Inr None\<close> when control falls through to the next
  block, and \<open>Inl e\<close> when \<open>e\<close> is raised inside the block and not caught there.
\<close>

type_synonym check = "py_exception + validation_result option"

text \<open>Lines 55-90: the key format of deepseek, openai and doubao.\<close>

definition api_key_format :: "AIProvider \<Rightarrow> pystr \<Rightarrow> validation_result option" where
  "api_key_format provider api_key =
     (if provider = DEEPSEEK then
        (if \<not> startswith api_key (ascii ''sk-'') then
           Some (invalid msg_deepseek_key_format (ascii ''api_key''))
         else if length api_key < 20 then
           Some (invalid msg_deepseek_key_length (ascii ''api_key''))
         else None)
      else if provider = OPENAI then
        (if \<not> startswith api_key (ascii ''sk-'') then
           Some (invalid msg_openai_key_format (ascii ''api_key''))
         else if length api_key < 20 then
           Some (invalid msg_openai_key_length (ascii ''api_key''))
         else None)
      else if provider = DOUBAO then
        (if length api_key < 16 then
           Some (invalid msg_doubao_key_length (ascii ''api_key''))
         else None)
      else None)"

text \<open>Lines 46-90.\<close>

definition check_api_key :: "AIProvider \<Rightarrow> json \<Rightarrow> check" where
  "check_api_key provider config =
     and_then (dict_get config (ascii ''api_key'') (JStr [])) (\<lambda>v.
     and_then (str_strip v) (\<lambda>api_key.
       if api_key = [] then
         Inr (Some (invalid (value provider @ msg_api_key_empty) (ascii ''api_key'')))
       else Inr (api_key_format provider api_key)))"

text \<open>Lines 109-132: the address of deepseek, openai and doubao.\<close>

definition base_url_provider :: "AIProvider \<Rightarrow> pystr \<Rightarrow> validation_result option" where
  "base_url_provider provider base_url =
     (if provider = DEEPSEEK then
        (if \<not> substr_in (ascii ''api.deepseek.com'') base_url then
           Some (invalid (msg_deepseek_url @ base_url) (ascii ''base_url''))
         else None)
      else if provider = OPENAI then
        (if \<not> substr_in (ascii ''api.openai.com'') base_url then
           Some (invalid (msg_openai_url @ base_url) (ascii ''base_url''))
         else None)
      else if provider = DOUBAO then
        (if \<not> substr_in (ascii ''volcengine.com'') base_url then
           Some (invalid (msg_doubao_url @ base_url) (ascii ''base_url''))
         else None)
      else None)"

text \<open>Lines 92-132.\<close>

definition check_base_url :: "AIProvider \<Rightarrow> json \<Rightarrow> check" where
  "check_base_url provider config =
     and_then (dict_get config (ascii ''base_url'') (JStr [])) (\<lambda>v.
     and_then (str_strip v) (\<lambda>base_url.
       if base_url = [] then
         Inr (Some (invalid (value provider @ msg_base_url_empty) (ascii ''base_url'')))
       else if \<not> (startswith base_url (ascii ''http://'') \<or> startswith base_url (ascii ''https://'')) then
         Inr (Some (invalid (msg_url_scheme @ base_url) (ascii ''base_url'')))
       else Inr (base_url_provider provider base_url)))"

text \<open>Lines 143-168: the model names of deepseek, openai and doubao.\<close>

definition model_provider :: "AIProvider \<Rightarrow> pystr \<Rightarrow> validation_result option" where
  "model_provider provider model =
     (if provider = DEEPSEEK then
        (if model \<notin> set [ascii ''deepseek-chat'', ascii ''deepseek-coder'']
            \<and> \<not> startswith model (ascii ''deepseek-'') then
           Some (invalid (msg_deepseek_model @ model) (ascii ''model''))
         else None)
      else if provider = OPENAI then
        (if \<not> list_ex (startswith model)
              [ascii ''gpt-3.5-turbo'', ascii ''gpt-4'', ascii ''gpt-4-turbo'', ascii ''gpt-4o''] then
           Some (invalid (msg_openai_model @ model) (ascii ''model''))
         else None)
      else if provider = DOUBAO then
        (if \<not> (startswith model (ascii ''ep-'') \<or> startswith model (ascii ''doubao-'')) then
           Some (invalid (msg_doubao_model @ model) (ascii ''model''))
         else None)
      else None)"

text \<open>Lines 134-168.\<close>

definition check_model :: "AIProvider \<Rightarrow> json \<Rightarrow> check" where
  "check_model provider config =
     and_then (dict_get config (ascii ''model'') (JStr [])) (\<lambda>v.
     and_then (str_strip v) (\<lambda>model.
       if model = [] then
         Inr (Some (invalid (value provider @ msg_model_empty) (ascii ''model'')))
       else Inr (model_provider provider model)))"

text \<open>
  Lines 170-185. The inner \<open>try\<close> catches \<open>ValueError\<close> and \<open>TypeError\<close> only; in its
  handler \<open>timeout\<close> is still the value read from the configuration.
\<close>

definition check_timeout :: "'a interpreter_scheme \<Rightarrow> json \<Rightarrow> check" where
  "check_timeout rt config =
     and_then (dict_get config (ascii ''timeout'') (JInt 30)) (\<lambda>v.
       case py_int rt v of
         Inr timeout \<Rightarrow>
           if timeout < 1 \<or> timeout > 300 then
             Inr (Some (invalid (msg_timeout_range (str_int timeout)) (ascii ''timeout'')))
           else Inr None
       | Inl e \<Rightarrow>
           if exc_kind_of e = ValueError \<or> exc_kind_of e = TypeError then
             Inr (Some (invalid (msg_timeout_format (format rt v)) (ascii ''timeout'')))
           else Inl e)"

text \<open>Lines 187-202.\<close>

definition check_max_tokens :: "'a interpreter_scheme \<Rightarrow> json \<Rightarrow> check" where
  "check_max_tokens rt config =
     and_then (dict_get config (ascii ''max_tokens'') (JInt 200)) (\<lambda>v.
       case py_int rt v of
         Inr max_tokens \<Rightarrow>
           if max_tokens < 1 \<or> max_tokens > 8000 then
             Inr (Some (invalid (msg_max_tokens_range (str_int max_tokens)) (ascii ''max_tokens'')))
           else Inr None
       | Inl e \<Rightarrow>
           if exc_kind_of e = ValueError \<or> exc_kind_of e = TypeError then
             Inr (Some (invalid (msg_max_tokens_format (format rt v)) (ascii ''max_tokens'')))
           else Inl e)"

text \<open>Lines 204-219. The default \<open>0.1\<close> is the double \<open>3602879701896397 * 2 ^ -55\<close>.\<close>

definition default_temperature :: pyfloat where
  "default_temperature = Finite 3602879701896397 (- 55)"

definition check_temperature :: "'a interpreter_scheme \<Rightarrow> json \<Rightarrow> check" where
  "check_temperature rt config =
     and_then (dict_get config (ascii ''temperature'') (JFloat default_temperature)) (\<lambda>v.
       case py_float rt v of
         Inr temperature \<Rightarrow>
           if float_lt_int temperature 0 \<or> float_gt_int temperature 2 then
             Inr (Some (invalid (msg_temperature_range (format rt (JFloat temperature))) (ascii ''temperature'')))
           else Inr None
       | Inl e \<Rightarrow>
           if exc_kind_of e = ValueError \<or> exc_kind_of e = TypeError then
             Inr (Some (invalid (msg_temperature_format (format rt v)) (ascii ''temperature'')))
           else Inl e)"

text \<open>
  The body of the outer \<open>try\<close>: the blocks one after the other; the first block that
  returns or raises ends it.
\<close>

definition checks :: "'a interpreter_scheme \<Rightarrow> AIProvider \<Rightarrow> json \<Rightarrow> check list" where
  "checks rt provider config =
     [check_api_key provider config, check_base_url provider config,
      check_model provider config, check_timeout rt config,
      check_max_tokens rt config, check_temperature rt config]"

fun first_outcome :: "check list \<Rightarrow> check" where
  "first_outcome [] = Inr None"
| "first_outcome (c # cs) = (case c of Inr None \<Rightarrow> first_outcome cs | _ \<Rightarrow> c)"

text \<open>
  Lines 38-228: \<open>_validate_config\<close>. Falling through every block reaches
  \<open>return {"valid": True}\<close>; the outer handler turns any exception into a result.
\<close>

definition validate_config :: "'a interpreter_scheme \<Rightarrow> AIProvider \<Rightarrow> json \<Rightarrow> validation_result" where
  "validate_config rt provider config =
     (case first_outcome (checks rt provider config) of
        Inl e \<Rightarrow> invalid (msg_validate_exception (str_exc rt e)) (ascii ''unknown'')
      | Inr (Some r) \<Rightarrow> r
      | Inr None \<Rightarrow> \<lparr>valid = True, error = None, field = None\<rparr>)"

section \<open>The result of a call\<close>

text \<open>
  The dict every call returns: \<open>success\<close> and \<open>simplified_task\<close> are always there,
  the other keys are \<open>None\<close> when the dict does not have them. The multi-provider
  call returns the same dict with the key \<open>all_results\<close> added.
\<close>

record call_result =
  success :: bool
  provider :: "pystr option"
  error :: "pystr option"
  field :: "pystr option"
  simplified_task :: pystr
  usage :: "json option"

record aggregate_result = call_result +
  all_results :: "call_result list option"

text \<open>The two dict literals the adapters return.\<close>

definition failure :: "pystr \<Rightarrow> pystr \<Rightarrow> pystr \<Rightarrow> call_result" where
  "failure name e task =
     \<lparr>success = False, provider = Some name, error = Some e, field = None,
      simplified_task = task, usage = None\<rparr>"

definition succeeded :: "pystr \<Rightarrow> pystr \<Rightarrow> json \<Rightarrow> call_result" where
  "succeeded name simplified u =
     \<lparr>success = True, provider = Some name, error = None, field = None,
      simplified_task = simplified, usage = Some u\<rparr>"

subsection \<open>Message texts\<close>

definition msg_not_configured :: "pystr \<Rightarrow> pystr" where \<comment> \<open>line 246: configuration of platform p not found, add it on the API configuration page\<close>
  "msg_not_configured p = [26410, 25214, 21040] @ p @ [24179, 21488, 30340, 37197, 32622, 65292, 35831, 22312] @ ascii ''API'' @ [37197, 32622, 39029, 38754, 28155, 21152, 37197, 32622]"

definition msg_unsupported :: "pystr \<Rightarrow> pystr" where \<comment> \<open>line 286: unsupported AI platform: p\<close>
  "msg_unsupported p = [19981, 25903, 25345, 30340] @ ascii ''AI'' @ [24179, 21488] @ ascii '': '' @ p"

definition msg_unknown_error :: pystr where \<comment> \<open>line 370: unknown error\<close>
  "msg_unknown_error = [26410, 30693, 38169, 35823]"

definition msg_summary_head :: pystr where \<comment> \<open>line 373: all AI platforms failed, colon, two newlines\<close>
  "msg_summary_head = [25152, 26377] @ ascii ''AI'' @ [24179, 21488, 37117, 22833, 36133, 20102] @ ascii '':'' @ [10, 10]"

definition msg_summary_more :: "pystr \<Rightarrow> pystr" where \<comment> \<open>line 375: two newlines, then: errors of n more platforms...\<close>
  "msg_summary_more n = [10, 10, 36824, 26377] @ n @ [20010, 24179, 21488, 30340, 38169, 35823] @ ascii ''...''"

definition msg_api_failed :: "pystr \<Rightarrow> pystr \<Rightarrow> pystr" where \<comment> \<open>lines 442, 525, 666, 761: API call failed (status): body\<close>
  "msg_api_failed status body = ascii ''API'' @ [35843, 29992, 22833, 36133] @ ascii '' ('' @ status @ ascii ''): '' @ body"

definition msg_deepseek_timeout :: "pystr \<Rightarrow> pystr" where \<comment> \<open>line 450: request timed out (t seconds)\<close>
  "msg_deepseek_timeout t = ascii ''DeepSeek API'' @ [35831, 27714, 36229, 26102] @ ascii ''('' @ t @ [31186] @ ascii '')'' @ [65292, 35831, 26816, 26597, 32593, 32476, 25110, 22686, 21152] @ ascii ''timeout'' @ [35774, 32622]"

definition msg_deepseek_ssl :: "pystr \<Rightarrow> pystr" where \<comment> \<open>line 459: SSL certificate verification failed: e\<close>
  "msg_deepseek_ssl e = ascii ''DeepSeek SSL'' @ [35777, 20070, 39564, 35777, 22833, 36133] @ ascii '': '' @ e"

definition msg_deepseek_dns :: "pystr \<Rightarrow> pystr" where \<comment> \<open>line 466: domain name resolution failed: e\<close>
  "msg_deepseek_dns e = ascii ''DeepSeek'' @ [22495, 21517, 35299, 26512, 22833, 36133] @ ascii '': '' @ e"

definition msg_deepseek_exception :: "pystr \<Rightarrow> pystr" where \<comment> \<open>line 473: API call exception: e\<close>
  "msg_deepseek_exception e = ascii ''DeepSeek API'' @ [35843, 29992, 24322, 24120] @ ascii '': '' @ e"

definition msg_timeout :: pystr where \<comment> \<open>lines 533, 674, 769, 816: request timed out, check the network or raise the timeout\<close>
  "msg_timeout = [35831, 27714, 36229, 26102, 65292, 35831, 26816, 26597, 32593, 32476, 36830, 25509, 25110, 22686, 21152, 36229, 26102, 26102, 38388]"

definition msg_yuanbao_unauthorized :: pystr where \<comment> \<open>line 593: API key invalid or expired\<close>
  "msg_yuanbao_unauthorized = [33150, 35759, 20803, 23453] @ ascii ''API'' @ [23494, 38053, 26080, 25928, 25110, 24050, 36807, 26399, 65292, 35831, 26816, 26597] @ ascii ''API'' @ [23494, 38053, 26159, 21542, 27491, 30830]"

definition msg_yuanbao_timeout :: "pystr \<Rightarrow> pystr" where \<comment> \<open>line 600: request timed out (t seconds)\<close>
  "msg_yuanbao_timeout t = [33150, 35759, 20803, 23453] @ ascii ''API'' @ [35831, 27714, 36229, 26102] @ ascii ''('' @ t @ [31186] @ ascii '')'' @ [65292, 35831, 26816, 26597, 32593, 32476, 25110, 22686, 21152] @ ascii ''timeout'' @ [35774, 32622]"

definition msg_yuanbao_rate_limit :: pystr where \<comment> \<open>line 607: call rate exceeded, retry later\<close>
  "msg_yuanbao_rate_limit = [33150, 35759, 20803, 23453] @ ascii ''API'' @ [35843, 29992, 39057, 29575, 36229, 38480, 65292, 35831, 31245, 21518, 37325, 35797]"

definition msg_yuanbao_exception :: "pystr \<Rightarrow> pystr" where \<comment> \<open>line 614: API call exception: e\<close>
  "msg_yuanbao_exception e = [33150, 35759, 20803, 23453] @ ascii ''API'' @ [35843, 29992, 24322, 24120] @ ascii '': '' @ e"

definition msg_gemini :: pystr where \<comment> \<open>line 690: call not yet implemented\<close>
  "msg_gemini = ascii ''Gemini API'' @ [35843, 29992, 24453, 23454, 29616]"

definition msg_claude :: pystr where \<comment> \<open>line 699\<close>
  "msg_claude = ascii ''Claude API'' @ [35843, 29992, 24453, 23454, 29616]"

definition msg_glm :: pystr where \<comment> \<open>line 708\<close>
  "msg_glm = ascii ''GLM API'' @ [35843, 29992, 24453, 23454, 29616]"

section \<open>The adapters\<close>

text \<open>
  What the outside world answers to one call of an adapter is an input of the model.
  For the adapters on aiohttp: the import fails; or building the timeout and the session
  fails; or the request, \<open>response.json()\<close> or \<open>response.text()\<close> fails; or a
  response arrives, with its status, the value of \<open>response.json()\<close> and the value of
  \<open>response.text()\<close>. For the adapters on the openai client: the import fails; or the
  client or the request fails; or a completion arrives, with the \<open>message.content\<close> of
  each of its \<open>choices\<close> (a string or \<open>None\<close>) and its \<open>usage\<close>.
\<close>

datatype http_outcome =
    ImportFails pystr
  | SessionFails exc_kind pystr
  | RequestFails exc_kind pystr
  | Response nat json pystr

record sdk_usage =
  prompt_tokens :: int
  completion_tokens :: int
  total_tokens :: int
  model_dump :: json

datatype sdk_outcome =
    SdkImportFails pystr
  | SdkCallFails exc_kind pystr
  | Completion "json list" "sdk_usage option"

record outcome =
  http :: http_outcome
  sdk :: sdk_outcome

text \<open>
  The adapters build a request from the configuration and send it. Of the request the
  model keeps the reads of the configuration that can raise, at their place among the
  steps that can fail outside.
\<close>

text \<open>Lines 430, 513, 654: \<open>result["choices"][0]["message"]["content"]\<close>.\<close>

definition chat_content :: "json \<Rightarrow> py_exception + json" where
  "chat_content result =
     and_then (getitem result (ascii ''choices'')) (\<lambda>choices.
     and_then (getitem0 choices) (\<lambda>choice.
     and_then (getitem choice (ascii ''message'')) (\<lambda>message.
       getitem message (ascii ''content''))))"

text \<open>
  The \<open>try\<close> body of \<open>_call_deepseek\<close> (lines 396-444), \<open>_call_doubao\<close> (480-527) and
  \<open>_call_openai\<close> (621-668), which differ in the provider name only.
\<close>

definition chat_response :: "pystr \<Rightarrow> pystr \<Rightarrow> nat \<Rightarrow> json \<Rightarrow> pystr \<Rightarrow> py_exception + call_result" where
  "chat_response name task status result error_text =
     (if status = 200 then
        and_then (chat_content result) (\<lambda>content.
        and_then (str_strip content) (\<lambda>simplified.
        and_then (dict_get result (ascii ''usage'') (JObj [])) (\<lambda>u.
          Inr (succeeded name simplified u))))
      else Inr (failure name (msg_api_failed (str_int (int status)) error_text) task))"

fun chat_request :: "pystr \<Rightarrow> pystr \<Rightarrow> json \<Rightarrow> http_outcome \<Rightarrow> py_exception + call_result" where
  "chat_request name task config (ImportFails m) = Inl (Thrown OtherError m)"
| "chat_request name task config (SessionFails k m) =
     and_then (getitem config (ascii ''api_key'')) (\<lambda>_. Inl (Thrown k m))"
| "chat_request name task config (RequestFails k m) =
     and_then (getitem config (ascii ''api_key'')) (\<lambda>_.
     and_then (getitem config (ascii ''base_url'')) (\<lambda>_. Inl (Thrown k m)))"
| "chat_request name task config (Response status result error_text) =
     and_then (getitem config (ascii ''api_key'')) (\<lambda>_.
     and_then (getitem config (ascii ''base_url'')) (\<lambda>_.
       chat_response name task status result error_text))"

text \<open>Lines 446-475: the handlers of \<open>_call_deepseek\<close>.\<close>

definition deepseek_handler :: "'a interpreter_scheme \<Rightarrow> pystr \<Rightarrow> json \<Rightarrow> py_exception \<Rightarrow> py_exception + call_result" where
  "deepseek_handler rt task config e =
     (if exc_kind_of e = TimeoutError then
        and_then (dict_get config (ascii ''timeout'') (JInt 30)) (\<lambda>t.
          Inr (failure (ascii ''deepseek'') (msg_deepseek_timeout (format rt t)) task))
      else
        (let error_str = str_exc rt e in
         if substr_in (ascii ''SSL'') error_str \<or> substr_in (ascii ''certificate'') (lower error_str) then
           Inr (failure (ascii ''deepseek'') (msg_deepseek_ssl error_str) task)
         else if substr_in (ascii ''DNS'') error_str \<or> substr_in (ascii ''resolve'') (lower error_str) then
           Inr (failure (ascii ''deepseek'') (msg_deepseek_dns error_str) task)
         else Inr (failure (ascii ''deepseek'') (msg_deepseek_exception error_str) task)))"

text \<open>Lines 529-542, 670-683, 765-778, 812-825: the handlers of the doubao, openai, wenxin and tongyi adapters.\<close>

definition plain_handler :: "'a interpreter_scheme \<Rightarrow> pystr \<Rightarrow> pystr \<Rightarrow> py_exception \<Rightarrow> call_result" where
  "plain_handler rt name task e =
     (if exc_kind_of e = TimeoutError then failure name msg_timeout task
      else failure name (str_exc rt e) task)"

definition call_deepseek :: "'a interpreter_scheme \<Rightarrow> pystr \<Rightarrow> json \<Rightarrow> http_outcome \<Rightarrow> py_exception + call_result" where
  "call_deepseek rt task config out =
     (case chat_request (ascii ''deepseek'') task config out of
        Inr r \<Rightarrow> Inr r
      | Inl e \<Rightarrow> deepseek_handler rt task config e)"

definition call_doubao :: "'a interpreter_scheme \<Rightarrow> pystr \<Rightarrow> json \<Rightarrow> http_outcome \<Rightarrow> py_exception + call_result" where
  "call_doubao rt task config out =
     (case chat_request (ascii ''doubao'') task config out of
        Inr r \<Rightarrow> Inr r
      | Inl e \<Rightarrow> Inr (plain_handler rt (ascii ''doubao'') task e))"

definition call_openai :: "'a interpreter_scheme \<Rightarrow> pystr \<Rightarrow> json \<Rightarrow> http_outcome \<Rightarrow> py_exception + call_result" where
  "call_openai rt task config out =
     (case chat_request (ascii ''openai'') task config out of
        Inr r \<Rightarrow> Inr r
      | Inl e \<Rightarrow> Inr (plain_handler rt (ascii ''openai'') task e))"

text \<open>Lines 685-710: the three adapters that are not implemented.\<close>

definition call_gemini :: "pystr \<Rightarrow> json \<Rightarrow> py_exception + call_result" where
  "call_gemini task config = Inr (failure (ascii ''gemini'') msg_gemini task)"

definition call_claude :: "pystr \<Rightarrow> json \<Rightarrow> py_exception + call_result" where
  "call_claude task config = Inr (failure (ascii ''claude'') msg_claude task)"

definition call_glm :: "pystr \<Rightarrow> json \<Rightarrow> py_exception + call_result" where
  "call_glm task config = Inr (failure (ascii ''glm'') msg_glm task)"

text \<open>
  Lines 714-763: the \<open>try\<close> body of \<open>_call_wenxin\<close>. \<open>"wenxin" in v\<close> is a substring
  test on a string and a membership test on a list or on the keys of a dict.
\<close>

definition py_in :: "pystr \<Rightarrow> json \<Rightarrow> py_exception + bool" where
  "py_in s v =
     (case v of
        JStr t \<Rightarrow> Inr (substr_in s t)
      | JList xs \<Rightarrow> Inr (JStr s \<in> set xs)
      | JObj kvs \<Rightarrow> Inr (s \<in> set (map fst kvs))
      | _ \<Rightarrow> Inl (Raised TypeError ''in'' v))"

definition wenxin_prepare :: "json \<Rightarrow> py_exception + unit" where
  "wenxin_prepare config =
     and_then (dict_get config (ascii ''temperature'') (JFloat default_temperature)) (\<lambda>_.
     and_then (getitem config (ascii ''base_url'')) (\<lambda>base_url.
     and_then (py_in (ascii ''wenxin'') base_url) (\<lambda>b.
       if b then and_then (getitem config (ascii ''api_key'')) (\<lambda>_. Inr ())
       else Inr ())))"

definition wenxin_response :: "pystr \<Rightarrow> nat \<Rightarrow> json \<Rightarrow> pystr \<Rightarrow> py_exception + call_result" where
  "wenxin_response task status result error_text =
     (if status = 200 then
        and_then (dict_get result (ascii ''result'') (JStr [])) (\<lambda>v.
        and_then (str_strip v) (\<lambda>simplified.
        and_then (dict_get result (ascii ''usage'') (JObj [])) (\<lambda>u.
          Inr (succeeded (ascii ''wenxin'') simplified u))))
      else Inr (failure (ascii ''wenxin'') (msg_api_failed (str_int (int status)) error_text) task))"

fun wenxin_request :: "pystr \<Rightarrow> json \<Rightarrow> http_outcome \<Rightarrow> py_exception + call_result" where
  "wenxin_request task config (ImportFails m) = Inl (Thrown OtherError m)"
| "wenxin_request task config (SessionFails k m) =
     and_then (wenxin_prepare config) (\<lambda>_. Inl (Thrown k m))"
| "wenxin_request task config (RequestFails k m) =
     and_then (wenxin_prepare config) (\<lambda>_. Inl (Thrown k m))"
| "wenxin_request task config (Response status result error_text) =
     and_then (wenxin_prepare config) (\<lambda>_. wenxin_response task status result error_text)"

definition call_wenxin :: "'a interpreter_scheme \<Rightarrow> pystr \<Rightarrow> json \<Rightarrow> http_outcome \<Rightarrow> py_exception + call_result" where
  "call_wenxin rt task config out =
     (case wenxin_request task config out of
        Inr r \<Rightarrow> Inr r
      | Inl e \<Rightarrow> Inr (plain_handler rt (ascii ''wenxin'') task e))"

text \<open>
  Lines 546-584 and 782-810: the \<open>try\<close> bodies of \<open>_call_yuanbao\<close> and \<open>_call_tongyi\<close>,
  with \<open>completion.choices[0].message.content.strip()\<close> on the choices of the completion.
\<close>

definition yuanbao_usage :: "sdk_usage option \<Rightarrow> json" where
  "yuanbao_usage u =
     JObj [(ascii ''prompt_tokens'', JInt (case u of Some x \<Rightarrow> prompt_tokens x | None \<Rightarrow> 0)),
           (ascii ''completion_tokens'', JInt (case u of Some x \<Rightarrow> completion_tokens x | None \<Rightarrow> 0)),
           (ascii ''total_tokens'', JInt (case u of Some x \<Rightarrow> total_tokens x | None \<Rightarrow> 0))]"

definition tongyi_usage :: "sdk_usage option \<Rightarrow> json" where
  "tongyi_usage u = (case u of Some x \<Rightarrow> model_dump x | None \<Rightarrow> JObj [])"

fun sdk_request :: "pystr \<Rightarrow> (sdk_usage option \<Rightarrow> json) \<Rightarrow> json \<Rightarrow> sdk_outcome \<Rightarrow> py_exception + call_result" where
  "sdk_request name usage_of config (SdkImportFails m) = Inl (Thrown OtherError m)"
| "sdk_request name usage_of config (SdkCallFails k m) =
     and_then (getitem config (ascii ''api_key'')) (\<lambda>_.
     and_then (getitem config (ascii ''base_url'')) (\<lambda>_. Inl (Thrown k m)))"
| "sdk_request name usage_of config (Completion choices u) =
     and_then (getitem config (ascii ''api_key'')) (\<lambda>_.
     and_then (getitem config (ascii ''base_url'')) (\<lambda>_.
     and_then (getitem0 (JList choices)) (\<lambda>content.
     and_then (str_strip content) (\<lambda>simplified.
       Inr (succeeded name simplified (usage_of u))))))"

text \<open>Lines 586-616: the handler of \<open>_call_yuanbao\<close>.\<close>

definition yuanbao_handler :: "'a interpreter_scheme \<Rightarrow> pystr \<Rightarrow> json \<Rightarrow> py_exception \<Rightarrow> py_exception + call_result" where
  "yuanbao_handler rt task config e =
     (let error_str = str_exc rt e in
      if substr_in (ascii ''401'') error_str \<or> substr_in (ascii ''unauthorized'') (lower error_str) then
        Inr (failure (ascii ''yuanbao'') msg_yuanbao_unauthorized task)
      else if substr_in (ascii ''timeout'') (lower error_str) then
        and_then (dict_get config (ascii ''timeout'') (JInt 30)) (\<lambda>t.
          Inr (failure (ascii ''yuanbao'') (msg_yuanbao_timeout (format rt t)) task))
      else if substr_in (ascii ''rate limit'') (lower error_str) then
        Inr (failure (ascii ''yuanbao'') msg_yuanbao_rate_limit task)
      else Inr (failure (ascii ''yuanbao'') (msg_yuanbao_exception error_str) task))"

definition call_yuanbao :: "'a interpreter_scheme \<Rightarrow> pystr \<Rightarrow> json \<Rightarrow> sdk_outcome \<Rightarrow> py_exception + call_result" where
  "call_yuanbao rt task config out =
     (case sdk_request (ascii ''yuanbao'') yuanbao_usage config out of
        Inr r \<Rightarrow> Inr r
      | Inl e \<Rightarrow> yuanbao_handler rt task config e)"

definition call_tongyi :: "'a interpreter_scheme \<Rightarrow> pystr \<Rightarrow> json \<Rightarrow> sdk_outcome \<Rightarrow> py_exception + call_result" where
  "call_tongyi rt task config out =
     (case sdk_request (ascii ''tongyi'') tongyi_usage config out of
        Inr r \<Rightarrow> Inr r
      | Inl e \<Rightarrow> Inr (plain_handler rt (ascii ''tongyi'') task e))"

section \<open>The orchestrator\<close>

text \<open>Lines 264-288: the dispatch of \<open>simplify_task_async\<close>.\<close>

definition call_adapter :: "'a interpreter_scheme \<Rightarrow> AIProvider \<Rightarrow> pystr \<Rightarrow> json \<Rightarrow> outcome \<Rightarrow> py_exception + call_result" where
  "call_adapter rt prov task_description config out =
     (if prov = DEEPSEEK then call_deepseek rt task_description config (http out)
      else if prov = DOUBAO then call_doubao rt task_description config (http out)
      else if prov = YUANBAO then call_yuanbao rt task_description config (sdk out)
      else if prov = OPENAI then call_openai rt task_description config (http out)
      else if prov = GEMINI then call_gemini task_description config
      else if prov = CLAUDE then call_claude task_description config
      else if prov = GLM then call_glm task_description config
      else if prov = WENXIN then call_wenxin rt task_description config (http out)
      else if prov = TONGYI then call_tongyi rt task_description config (sdk out)
      else Inr (failure (value prov) (msg_unsupported (value prov)) task_description))"

text \<open>
  Lines 230-299: \<open>simplify_task_async\<close>. \<open>configs\<close> is \<open>self.configs\<close>, a dict from
  providers to configurations; \<open>out\<close> is what the outside world answers if an adapter
  is called. The handler of the outer \<open>try\<close> turns an exception of the adapter into a
  result.
\<close>

definition simplify_task_async ::
  "'a interpreter_scheme \<Rightarrow> (AIProvider \<rightharpoonup> json) \<Rightarrow> pystr \<Rightarrow> AIProvider \<Rightarrow> outcome \<Rightarrow> call_result" where
  "simplify_task_async rt configs task_description prov out =
     (case configs prov of
        None \<Rightarrow>
          \<lparr>success = False, provider = Some (value prov),
           error = Some (msg_not_configured (value prov)), field = None,
           simplified_task = task_description, usage = None\<rparr>
      | Some config \<Rightarrow>
          (let validation = validate_config rt prov config in
           if \<not> valid validation then
             \<lparr>success = False, provider = Some (value prov),
              error = validation_result.error validation,
              field = validation_result.field validation,
              simplified_task = task_description, usage = None\<rparr>
           else
             (case call_adapter rt prov task_description config out of
                Inr result \<Rightarrow> result
              | Inl e \<Rightarrow> failure (value prov) (str_exc rt e) task_description)))"

text \<open>
  Lines 343-344: one call per provider, in the order of the list, gathered with
  \<open>return_exceptions=True\<close>; \<open>outs i\<close> is the answer of the outside world to call
  number \<open>i\<close>.
\<close>

definition gather ::
  "'a interpreter_scheme \<Rightarrow> (AIProvider \<rightharpoonup> json) \<Rightarrow> pystr \<Rightarrow> AIProvider list \<Rightarrow> (nat \<Rightarrow> outcome)
     \<Rightarrow> (py_exception + call_result) list" where
  "gather rt configs task_description providers outs =
     map (\<lambda>i. Inr (simplify_task_async rt configs task_description (providers ! i) (outs i)))
       [0..<length providers]"

text \<open>Lines 346-356: an exception among the gathered results becomes a failed result.\<close>

definition collect ::
  "'a interpreter_scheme \<Rightarrow> pystr \<Rightarrow> AIProvider list \<Rightarrow> (py_exception + call_result) list \<Rightarrow> call_result list" where
  "collect rt task_description providers provider_results =
     map (\<lambda>(i, result).
            case result of
              Inl e \<Rightarrow> failure (value (providers ! i)) (str_exc rt e) task_description
            | Inr r \<Rightarrow> r)
       (enumerate 0 provider_results)"

text \<open>\<open>min(xs, key=...)\<close> on a list that is not empty: the first of the smallest.\<close>

fun min_by :: "('a \<Rightarrow> nat) \<Rightarrow> 'a \<Rightarrow> 'a list \<Rightarrow> 'a" where
  "min_by key best [] = best"
| "min_by key best (x # xs) = min_by key (if key x < key best then x else best) xs"

text \<open>
  Line 363: \<open>best_result["all_results"] = results\<close>. In Python the best result is one
  of the dicts of \<open>results\<close>, so the list it now carries holds that same dict; the
  model gives the list by value, each result as the call returned it.
\<close>

definition attach :: "call_result \<Rightarrow> call_result list \<Rightarrow> aggregate_result" where
  "attach r results =
     \<lparr>success = success r, provider = provider r, error = error r, field = field r,
      simplified_task = simplified_task r, usage = usage r, all_results = Some results\<rparr>"

text \<open>Lines 367-375: the summary of the errors.\<close>

definition error_detail :: "call_result \<Rightarrow> pystr" where
  "error_detail result =
     [8226] @ ascii '' ''
       @ upper (case provider result of Some p \<Rightarrow> p | None \<Rightarrow> ascii ''unknown'')
       @ ascii '': ''
       @ (case error result of Some e \<Rightarrow> e | None \<Rightarrow> msg_unknown_error)"

definition error_summary :: "call_result list \<Rightarrow> pystr" where
  "error_summary results =
     (let error_details = map error_detail results in
      msg_summary_head @ join [10] (take 3 error_details)
        @ (if length error_details > 3
           then msg_summary_more (str_int (int (length error_details) - 3))
           else []))"

text \<open>Lines 358-382: the choice of the best result.\<close>

definition select_best :: "pystr \<Rightarrow> call_result list \<Rightarrow> aggregate_result" where
  "select_best task_description results =
     (case filter success results of
        r # rs \<Rightarrow> attach (min_by (\<lambda>x. length (simplified_task x)) r rs) results
      | [] \<Rightarrow>
          \<lparr>success = False, provider = None, error = Some (error_summary results), field = None,
           simplified_task = task_description, usage = None, all_results = Some results\<rparr>)"

text \<open>Lines 328-390: \<open>simplify_task_multiple_providers\<close>.\<close>

definition provider_results ::
  "'a interpreter_scheme \<Rightarrow> (AIProvider \<rightharpoonup> json) \<Rightarrow> pystr \<Rightarrow> AIProvider list \<Rightarrow> (nat \<Rightarrow> outcome)
     \<Rightarrow> call_result list" where
  "provider_results rt configs task_description providers outs =
     collect rt task_description providers (gather rt configs task_description providers outs)"

definition simplify_task_multiple_providers ::
  "'a interpreter_scheme \<Rightarrow> (AIProvider \<rightharpoonup> json) \<Rightarrow> pystr \<Rightarrow> AIProvider list \<Rightarrow> (nat \<Rightarrow> outcome)
     \<Rightarrow> aggregate_result" where
  "simplify_task_multiple_providers rt configs task_description providers outs =
     select_best task_description (provider_results rt configs task_description providers outs)"

section \<open>The manager\<close>

text \<open>
  Lines 924-934: \<open>get_provider_status\<close>, on the configurations the manager has loaded.
  The value stored for a provider is that of
  \<open>provider in configs and configs[provider].get("api_key")\<close>: \<open>False\<close> when the
  provider has no configuration, and else whatever \<open>get\<close> returns. The result dict is
  the list of its entries in insertion order.
\<close>

fun status_loop :: "(AIProvider \<rightharpoonup> json) \<Rightarrow> AIProvider list \<Rightarrow> (pystr \<times> json) list \<Rightarrow> py_exception + (pystr \<times> json) list" where
  "status_loop configs [] status = Inr status"
| "status_loop configs (p # ps) status =
     (case configs p of
        None \<Rightarrow> status_loop configs ps (status @ [(value p, JBool False)])
      | Some config \<Rightarrow>
          and_then (dict_get config (ascii ''api_key'') JNull) (\<lambda>k.
            status_loop configs ps (status @ [(value p, k)])))"

definition get_provider_status :: "(AIProvider \<rightharpoonup> json) \<Rightarrow> py_exception + (pystr \<times> json) list" where
  "get_provider_status configs = status_loop configs all_providers []"

text \<open>The truth value of a Python value, as \<open>if v\<close> and \<open>bool(v)\<close> take it.\<close>

fun truthy :: "json \<Rightarrow> bool" where
  "truthy JNull = False"
| "truthy (JBool b) = b"
| "truthy (JInt n) = (n \<noteq> 0)"
| "truthy (JFloat f) = (case f of Finite m e \<Rightarrow> m \<noteq> 0 | _ \<Rightarrow> True)"
| "truthy (JStr s) = (s \<noteq> [])"
| "truthy (JList xs) = (xs \<noteq> [])"
| "truthy (JObj kvs) = (kvs \<noteq> [])"

section \<open>An interpreter to evaluate the model with\<close>

text \<open>
  An instance of the interpreter parameter for concrete inputs: \<open>int(s)\<close> reads a
  decimal literal with an optional sign, between whitespace.
\<close>

fun decimal_nat :: "nat \<Rightarrow> pystr \<Rightarrow> nat option" where
  "decimal_nat acc [] = Some acc"
| "decimal_nat acc (c # cs) =
     (if 48 \<le> c \<and> c \<le> 57 then decimal_nat (10 * acc + (c - 48)) cs else None)"

definition decimal :: "pystr \<Rightarrow> int option" where
  "decimal s =
     (case strip s of
        [] \<Rightarrow> None
      | c # cs \<Rightarrow>
          if c = 45 then (if cs = [] then None else map_option (\<lambda>n. - int n) (decimal_nat 0 cs))
          else if c = 43 then (if cs = [] then None else map_option int (decimal_nat 0 cs))
          else map_option int (decimal_nat 0 (c # cs)))"

definition plain_interpreter :: interpreter where
  "plain_interpreter =
     \<lparr>exc_text = (\<lambda>k op v. ascii op),
      repr_text = (\<lambda>v. ascii ''?''),
      int_of_str = decimal,
      float_of_str = (\<lambda>s. map_option (\<lambda>n. Finite n 0) (decimal s)),
      float_of_int = (\<lambda>n. Some (Finite n 0))\<rparr>"

section \<open>Notions used in the proofs\<close>

text \<open>A validation result that reports a failure: not valid, with a message and a field.\<close>

definition reports_error :: "validation_result \<Rightarrow> bool" where
  "reports_error r \<longleftrightarrow>
     \<not> valid r
     \<and> (\<exists>m f. validation_result.error r = Some m \<and> m \<noteq> [] \<and> validation_result.field r = Some f)"

text \<open>
  A result that carries the name of its provider and, when it failed, an error text and
  the task it was given.
\<close>

definition tagged :: "pystr \<Rightarrow> pystr \<Rightarrow> call_result \<Rightarrow> bool" where
  "tagged name task r \<longleftrightarrow>
     provider r = Some name
     \<and> (\<not> success r \<longrightarrow> (\<exists>e. error r = Some e) \<and> simplified_task r = task)"

section \<open>Concrete inputs\<close>

text \<open>Configurations that pass validation, for deepseek, wenxin and tongyi.\<close>

definition example_config :: "(pystr \<times> json) list" where
  "example_config =
     [(ascii ''api_key'', JStr (ascii ''sk-0123456789abcdefghij'')),
      (ascii ''base_url'', JStr (ascii ''https://api.deepseek.com/v1'')),
      (ascii ''model'', JStr (ascii ''deepseek-chat''))]"

definition wenxin_config :: "(pystr \<times> json) list" where
  "wenxin_config =
     [(ascii ''api_key'', JStr (ascii ''k-123'')),
      (ascii ''base_url'', JStr (ascii ''https://qianfan.example/wenxin/chat'')),
      (ascii ''model'', JStr (ascii ''ernie''))]"

definition tongyi_config :: "(pystr \<times> json) list" where
  "tongyi_config =
     [(ascii ''api_key'', JStr (ascii ''k-456'')),
      (ascii ''base_url'', JStr (ascii ''https://dashscope.example/v1'')),
      (ascii ''model'', JStr (ascii ''qwen-plus''))]"

definition example_configs :: "AIProvider \<rightharpoonup> json" where
  "example_configs = [WENXIN \<mapsto> JObj wenxin_config, TONGYI \<mapsto> JObj tongyi_config]"

text \<open>A chat response whose generated text is two spaces.\<close>

definition blank_chat_body :: json where
  "blank_chat_body =
     JObj [(ascii ''choices'',
            JList [JObj [(ascii ''message'', JObj [(ascii ''content'', JStr (ascii ''  ''))])]])]"

text \<open>
  Answers of the outside world: to call 0 a long text, to every later call the text
  \<open>go\<close> with blanks around it; the openai client answers \<open>go\<close>.
\<close>

definition example_outs :: "nat \<Rightarrow> outcome" where
  "example_outs i =
     \<lparr>http = Response 200
        (JObj [(ascii ''result'', JStr (if i = 0 then ascii ''tap the red button'' else ascii '' go ''))]) [],
      sdk = Completion [JStr (ascii ''go'')] None\<rparr>"

section \<open>Rules to evaluate the model\<close>

lemmas validation_defs =
  validate_config_def checks_def check_api_key_def check_base_url_def check_model_def
  check_timeout_def check_max_tokens_def check_temperature_def dict_get_def and_then_def
  str_strip_def strip_def isspace_def api_key_format_def base_url_provider_def
  model_provider_def startswith_def py_int_def py_float_def default_temperature_def
  invalid_def ascii_def example_config_def

lemmas adapter_defs =
  call_adapter_def call_deepseek_def call_doubao_def call_openai_def call_wenxin_def
  call_yuanbao_def call_tongyi_def call_gemini_def call_claude_def call_glm_def
  chat_response_def chat_content_def wenxin_prepare_def wenxin_response_def py_in_def
  getitem_def getitem0_def succeeded_def failure_def plain_handler_def
  wenxin_config_def blank_chat_body_def tongyi_usage_def yuanbao_usage_def

lemmas orchestrator_defs =
  simplify_task_async_def provider_results_def collect_def gather_def enumerate_eq_zip
  example_configs_def example_outs_def tongyi_config_def sdk_request.simps
  chat_request.simps wenxin_request.simps msg_not_configured_def

section \<open>Validation: what a failed check reports\<close>

lemma reports_invalid: "m \<noteq> [] \<Longrightarrow> reports_error (invalid m f)"
  by (simp add: reports_error_def invalid_def)

lemma api_key_format_reports: "api_key_format p k = Some r \<Longrightarrow> reports_error r"
  by (auto simp: api_key_format_def msg_deepseek_key_format_def msg_deepseek_key_length_def
      msg_openai_key_format_def msg_openai_key_length_def msg_doubao_key_length_def ascii_def
      intro!: reports_invalid split: if_splits)

lemma base_url_provider_reports: "base_url_provider p u = Some r \<Longrightarrow> reports_error r"
  by (auto simp: base_url_provider_def msg_deepseek_url_def msg_openai_url_def
      msg_doubao_url_def ascii_def intro!: reports_invalid split: if_splits)

lemma model_provider_reports: "model_provider p u = Some r \<Longrightarrow> reports_error r"
  by (auto simp: model_provider_def msg_deepseek_model_def msg_openai_model_def
      msg_doubao_model_def ascii_def intro!: reports_invalid split: if_splits)

lemma check_api_key_reports: "check_api_key p c = Inr (Some r) \<Longrightarrow> reports_error r"
  by (auto simp: check_api_key_def and_then_def msg_api_key_empty_def
      intro!: reports_invalid dest: api_key_format_reports split: sum.splits if_splits)

lemma check_base_url_reports: "check_base_url p c = Inr (Some r) \<Longrightarrow> reports_error r"
  by (auto simp: check_base_url_def and_then_def msg_base_url_empty_def msg_url_scheme_def
      intro!: reports_invalid dest: base_url_provider_reports split: sum.splits if_splits)

lemma check_model_reports: "check_model p c = Inr (Some r) \<Longrightarrow> reports_error r"
  by (auto simp: check_model_def and_then_def msg_model_empty_def
      intro!: reports_invalid dest: model_provider_reports split: sum.splits if_splits)

lemma check_timeout_reports: "check_timeout rt c = Inr (Some r) \<Longrightarrow> reports_error r"
  by (auto simp: check_timeout_def and_then_def msg_timeout_range_def msg_timeout_format_def
      intro!: reports_invalid split: sum.splits if_splits)

lemma check_max_tokens_reports: "check_max_tokens rt c = Inr (Some r) \<Longrightarrow> reports_error r"
  by (auto simp: check_max_tokens_def and_then_def msg_max_tokens_range_def
      msg_max_tokens_format_def intro!: reports_invalid split: sum.splits if_splits)

lemma check_temperature_reports: "check_temperature rt c = Inr (Some r) \<Longrightarrow> reports_error r"
  by (auto simp: check_temperature_def and_then_def msg_temperature_range_def
      msg_temperature_format_def intro!: reports_invalid split: sum.splits if_splits)

lemma first_outcome_Some: "first_outcome cs = Inr (Some r) \<Longrightarrow> Inr (Some r) \<in> set cs"
  by (induction cs) (auto split: sum.splits option.splits)

lemma checks_report:
  assumes "first_outcome (checks rt p c) = Inr (Some r)"
  shows "reports_error r"
proof -
  from assms have "Inr (Some r) \<in> set (checks rt p c)"
    by (rule first_outcome_Some)
  then consider "check_api_key p c = Inr (Some r)" | "check_base_url p c = Inr (Some r)"
    | "check_model p c = Inr (Some r)" | "check_timeout rt c = Inr (Some r)"
    | "check_max_tokens rt c = Inr (Some r)" | "check_temperature rt c = Inr (Some r)"
    unfolding checks_def by auto
  then show ?thesis
    by cases
      (erule check_api_key_reports check_base_url_reports check_model_reports
        check_timeout_reports check_max_tokens_reports check_temperature_reports)+
qed

lemma invalid_reports:
  assumes "\<not> valid (validate_config rt p c)"
  shows "reports_error (validate_config rt p c)"
proof (cases "first_outcome (checks rt p c)")
  case (Inl e)
  then show ?thesis
    by (simp add: validate_config_def msg_validate_exception_def reports_invalid)
next
  case (Inr found)
  show ?thesis
  proof (cases found)
    case None
    with Inr assms show ?thesis by (simp add: validate_config_def)
  next
    case (Some r)
    with Inr have "reports_error r" by (auto dest: checks_report)
    with Inr Some show ?thesis by (simp add: validate_config_def)
  qed
qed

text \<open>
  Claim C4. \<open>_validate_config\<close> returns a result for every provider and every
  configuration, dict or not: the model is a total function in which every exception of
  the body is a value that the outer handler receives. An exception that leaves the
  checks (one that no block catches itself) gives the result with \<open>valid\<close> false, the
  message built from the text of the exception and the field \<open>unknown\<close>; and every
  result with \<open>valid\<close> false has a message that is not empty and a field.
\<close>

theorem validate_config_never_raises:
  "(first_outcome (checks rt p c) = Inl e \<longrightarrow>
      validate_config rt p c =
        \<lparr>valid = False, error = Some (msg_validate_exception (str_exc rt e)),
         field = Some (ascii ''unknown'')\<rparr>)
   \<and> (\<not> valid (validate_config rt p c) \<longrightarrow>
      (\<exists>m f. validation_result.error (validate_config rt p c) = Some m \<and> m \<noteq> []
         \<and> validation_result.field (validate_config rt p c) = Some f))"
proof (intro conjI impI)
  assume "first_outcome (checks rt p c) = Inl e"
  then show "validate_config rt p c =
        \<lparr>valid = False, error = Some (msg_validate_exception (str_exc rt e)),
         field = Some (ascii ''unknown'')\<rparr>"
    by (simp add: validate_config_def invalid_def)
next
  assume "\<not> valid (validate_config rt p c)"
  then have "reports_error (validate_config rt p c)" by (rule invalid_reports)
  then show "\<exists>m f. validation_result.error (validate_config rt p c) = Some m \<and> m \<noteq> []
         \<and> validation_result.field (validate_config rt p c) = Some f"
    by (simp add: reports_error_def)
qed

text \<open>
  Claim C4 at a configuration that is the number 5 and not a dict: \<open>config.get\<close> raises
  an \<open>AttributeError\<close>, and the result has the field \<open>unknown\<close>.
\<close>

theorem validate_config_never_raises_witness:
  "first_outcome (checks plain_interpreter DEEPSEEK (JInt 5)) =
     Inl (Raised AttributeError ''get'' (JInt 5))
   \<and> validate_config plain_interpreter DEEPSEEK (JInt 5) =
      \<lparr>valid = False,
       error = Some (msg_validate_exception
                 (str_exc plain_interpreter (Raised AttributeError ''get'' (JInt 5)))),
       field = Some (ascii ''unknown'')\<rparr>
   \<and> \<not> valid (validate_config plain_interpreter DEEPSEEK (JInt 5))
   \<and> (\<exists>m f. validation_result.error (validate_config plain_interpreter DEEPSEEK (JInt 5)) = Some m
        \<and> m \<noteq> []
        \<and> validation_result.field (validate_config plain_interpreter DEEPSEEK (JInt 5)) = Some f)"
proof -
  have h: "first_outcome (checks plain_interpreter DEEPSEEK (JInt 5)) =
     Inl (Raised AttributeError ''get'' (JInt 5))"
    by (simp add: checks_def check_api_key_def dict_get_def and_then_def)
  note t = validate_config_never_raises
    [of plain_interpreter DEEPSEEK "JInt 5" "Raised AttributeError ''get'' (JInt 5)"]
  from t h have v: "validate_config plain_interpreter DEEPSEEK (JInt 5) =
      \<lparr>valid = False,
       error = Some (msg_validate_exception
                 (str_exc plain_interpreter (Raised AttributeError ''get'' (JInt 5)))),
       field = Some (ascii ''unknown'')\<rparr>"
    by blast
  then have nv: "\<not> valid (validate_config plain_interpreter DEEPSEEK (JInt 5))" by simp
  with t h v show ?thesis by blast
qed

section \<open>Validation: the order of the checks\<close>

text \<open>
  Claim C5. The checks run in the order api_key (presence, then format), base_url
  (presence and scheme, then the provider's substring), model, timeout, max_tokens,
  temperature, and the first one that fails gives the result: a failure of a check is
  the result of \<open>_validate_config\<close> as soon as every check before it has passed,
  whatever the later checks would say. So for every provider and every configuration
  dict whose \<open>api_key\<close> is missing, empty or only whitespace, the result has
  \<open>valid\<close> false and the field \<open>api_key\<close>, whatever the other entries are.
\<close>

theorem validate_config_order:
  "(check_api_key p c = Inr (Some r) \<longrightarrow> validate_config rt p c = r)
   \<and> (check_api_key p c = Inr None \<and> check_base_url p c = Inr (Some r)
        \<longrightarrow> validate_config rt p c = r)
   \<and> (check_api_key p c = Inr None \<and> check_base_url p c = Inr None
        \<and> check_model p c = Inr (Some r) \<longrightarrow> validate_config rt p c = r)
   \<and> (check_api_key p c = Inr None \<and> check_base_url p c = Inr None
        \<and> check_model p c = Inr None \<and> check_timeout rt c = Inr (Some r)
        \<longrightarrow> validate_config rt p c = r)
   \<and> (check_api_key p c = Inr None \<and> check_base_url p c = Inr None
        \<and> check_model p c = Inr None \<and> check_timeout rt c = Inr None
        \<and> check_max_tokens rt c = Inr (Some r) \<longrightarrow> validate_config rt p c = r)
   \<and> (check_api_key p c = Inr None \<and> check_base_url p c = Inr None
        \<and> check_model p c = Inr None \<and> check_timeout rt c = Inr None
        \<and> check_max_tokens rt c = Inr None \<and> check_temperature rt c = Inr (Some r)
        \<longrightarrow> validate_config rt p c = r)
   \<and> (map_of kvs (ascii ''api_key'') = None
        \<or> (\<exists>s. map_of kvs (ascii ''api_key'') = Some (JStr s) \<and> strip s = [])
        \<longrightarrow> validate_config rt p (JObj kvs) =
             \<lparr>valid = False, error = Some (value p @ msg_api_key_empty),
              field = Some (ascii ''api_key'')\<rparr>)"
proof -
  have key: "check_api_key p (JObj kvs) =
      Inr (Some (invalid (value p @ msg_api_key_empty) (ascii ''api_key'')))"
    if "map_of kvs (ascii ''api_key'') = None
        \<or> (\<exists>s. map_of kvs (ascii ''api_key'') = Some (JStr s) \<and> strip s = [])"
    using that by (auto simp: check_api_key_def dict_get_def and_then_def str_strip_def strip_def)
  show ?thesis
    by (auto simp: validate_config_def checks_def key invalid_def)
qed

text \<open>
  Claim C5 at deepseek configurations: one failing check each, with a later entry that
  would fail too, and a configuration whose \<open>api_key\<close> is three spaces while its
  \<open>base_url\<close> is a number and its \<open>timeout\<close> a word.
\<close>

theorem validate_config_order_witness:
  "validate_config plain_interpreter DEEPSEEK
       (JObj ((ascii ''api_key'', JStr (ascii ''key'')) # example_config)) =
     invalid msg_deepseek_key_format (ascii ''api_key'')
   \<and> validate_config plain_interpreter DEEPSEEK
       (JObj ((ascii ''base_url'', JStr (ascii ''ftp://host'')) # example_config)) =
     invalid (msg_url_scheme @ ascii ''ftp://host'') (ascii ''base_url'')
   \<and> validate_config plain_interpreter DEEPSEEK
       (JObj ((ascii ''model'', JStr (ascii ''gpt-4'')) # (ascii ''timeout'', JInt 0) # example_config)) =
     invalid (msg_deepseek_model @ ascii ''gpt-4'') (ascii ''model'')
   \<and> validate_config plain_interpreter DEEPSEEK
       (JObj ((ascii ''timeout'', JInt 0) # (ascii ''max_tokens'', JInt 0) # example_config)) =
     invalid (msg_timeout_range (ascii ''0'')) (ascii ''timeout'')
   \<and> validate_config plain_interpreter DEEPSEEK
       (JObj ((ascii ''max_tokens'', JInt 0) # (ascii ''temperature'', JInt 3) # example_config)) =
     invalid (msg_max_tokens_range (ascii ''0'')) (ascii ''max_tokens'')
   \<and> validate_config plain_interpreter DEEPSEEK
       (JObj ((ascii ''temperature'', JInt 3) # example_config)) =
     invalid (msg_temperature_range (ascii ''?'')) (ascii ''temperature'')
   \<and> validate_config plain_interpreter DEEPSEEK
       (JObj [(ascii ''api_key'', JStr (ascii ''   '')), (ascii ''base_url'', JInt 7),
              (ascii ''timeout'', JStr (ascii ''soon''))]) =
     \<lparr>valid = False, error = Some (value DEEPSEEK @ msg_api_key_empty),
      field = Some (ascii ''api_key'')\<rparr>"
proof -
  let ?rt = plain_interpreter
  let ?c1 = "JObj ((ascii ''api_key'', JStr (ascii ''key'')) # example_config)"
  let ?r1 = "invalid msg_deepseek_key_format (ascii ''api_key'')"
  let ?c2 = "JObj ((ascii ''base_url'', JStr (ascii ''ftp://host'')) # example_config)"
  let ?r2 = "invalid (msg_url_scheme @ ascii ''ftp://host'') (ascii ''base_url'')"
  let ?c3 = "JObj ((ascii ''model'', JStr (ascii ''gpt-4'')) # (ascii ''timeout'', JInt 0) # example_config)"
  let ?r3 = "invalid (msg_deepseek_model @ ascii ''gpt-4'') (ascii ''model'')"
  let ?c4 = "JObj ((ascii ''timeout'', JInt 0) # (ascii ''max_tokens'', JInt 0) # example_config)"
  let ?r4 = "invalid (msg_timeout_range (ascii ''0'')) (ascii ''timeout'')"
  let ?c5 = "JObj ((ascii ''max_tokens'', JInt 0) # (ascii ''temperature'', JInt 3) # example_config)"
  let ?r5 = "invalid (msg_max_tokens_range (ascii ''0'')) (ascii ''max_tokens'')"
  let ?c6 = "JObj ((ascii ''temperature'', JInt 3) # example_config)"
  let ?r6 = "invalid (msg_temperature_range (ascii ''?'')) (ascii ''temperature'')"
  let ?k7 = "[(ascii ''api_key'', JStr (ascii ''   '')), (ascii ''base_url'', JInt 7),
              (ascii ''timeout'', JStr (ascii ''soon''))]"
  have 1: "check_api_key DEEPSEEK ?c1 = Inr (Some ?r1)"
    by (simp add: validation_defs)
  have 2: "check_api_key DEEPSEEK ?c2 = Inr None \<and> check_base_url DEEPSEEK ?c2 = Inr (Some ?r2)"
    by (simp add: validation_defs)
  have 3: "check_api_key DEEPSEEK ?c3 = Inr None \<and> check_base_url DEEPSEEK ?c3 = Inr None
      \<and> check_model DEEPSEEK ?c3 = Inr (Some ?r3)"
    by (simp add: validation_defs)
  have 4: "check_api_key DEEPSEEK ?c4 = Inr None \<and> check_base_url DEEPSEEK ?c4 = Inr None
      \<and> check_model DEEPSEEK ?c4 = Inr None \<and> check_timeout ?rt ?c4 = Inr (Some ?r4)"
    by (simp add: validation_defs msg_timeout_range_def str_int_def)
  have 5: "check_api_key DEEPSEEK ?c5 = Inr None \<and> check_base_url DEEPSEEK ?c5 = Inr None
      \<and> check_model DEEPSEEK ?c5 = Inr None \<and> check_timeout ?rt ?c5 = Inr None
      \<and> check_max_tokens ?rt ?c5 = Inr (Some ?r5)"
    by (simp add: validation_defs msg_max_tokens_range_def str_int_def)
  have 6: "check_api_key DEEPSEEK ?c6 = Inr None \<and> check_base_url DEEPSEEK ?c6 = Inr None
      \<and> check_model DEEPSEEK ?c6 = Inr None \<and> check_timeout ?rt ?c6 = Inr None
      \<and> check_max_tokens ?rt ?c6 = Inr None \<and> check_temperature ?rt ?c6 = Inr (Some ?r6)"
    by (simp add: validation_defs msg_temperature_range_def plain_interpreter_def)
  have 7: "map_of ?k7 (ascii ''api_key'') = None
        \<or> (\<exists>s. map_of ?k7 (ascii ''api_key'') = Some (JStr s) \<and> strip s = [])"
    by (simp add: strip_def isspace_def ascii_def)
  from validate_config_order [of DEEPSEEK ?c1 ?r1 ?rt] 1
  have a: "validate_config ?rt DEEPSEEK ?c1 = ?r1" by blast
  from validate_config_order [of DEEPSEEK ?c2 ?r2 ?rt] 2
  have b: "validate_config ?rt DEEPSEEK ?c2 = ?r2" by blast
  from validate_config_order [of DEEPSEEK ?c3 ?r3 ?rt] 3
  have c: "validate_config ?rt DEEPSEEK ?c3 = ?r3" by blast
  from validate_config_order [of DEEPSEEK ?c4 ?r4 ?rt] 4
  have d: "validate_config ?rt DEEPSEEK ?c4 = ?r4" by blast
  from validate_config_order [of DEEPSEEK ?c5 ?r5 ?rt] 5
  have e: "validate_config ?rt DEEPSEEK ?c5 = ?r5" by blast
  from validate_config_order [of DEEPSEEK ?c6 ?r6 ?rt] 6
  have f: "validate_config ?rt DEEPSEEK ?c6 = ?r6" by blast
  from validate_config_order [of DEEPSEEK _ _ ?rt ?k7] 7
  have g: "validate_config ?rt DEEPSEEK (JObj ?k7) =
     \<lparr>valid = False, error = Some (value DEEPSEEK @ msg_api_key_empty),
      field = Some (ascii ''api_key'')\<rparr>" by blast
  from a b c d e f g show ?thesis by blast
qed

section \<open>Validation: the timeout\<close>

text \<open>
  What the timeout block does with an integer and with a string that \<open>int\<close> does not
  read: an integer outside 1..300 is rejected with the out-of-range message, an integer
  inside passes, such a string is rejected with the format message, and the two
  messages differ whatever value they quote.
\<close>

lemma check_timeout_int:
  "map_of kvs (ascii ''timeout'') = Some (JInt n) \<Longrightarrow>
   check_timeout rt (JObj kvs) =
     (if n < 1 \<or> n > 300
      then Inr (Some \<lparr>valid = False, error = Some (msg_timeout_range (str_int n)),
                      field = Some (ascii ''timeout'')\<rparr>)
      else Inr None)"
  by (simp add: check_timeout_def dict_get_def and_then_def py_int_def invalid_def)

lemma check_timeout_str:
  "map_of kvs (ascii ''timeout'') = Some (JStr s) \<Longrightarrow> int_of_str rt s = None \<Longrightarrow>
   check_timeout rt (JObj kvs) =
     Inr (Some \<lparr>valid = False, error = Some (msg_timeout_format s),
                 field = Some (ascii ''timeout'')\<rparr>)"
  by (simp add: check_timeout_def dict_get_def and_then_def py_int_def invalid_def)

lemma msg_timeout_distinct: "msg_timeout_format a \<noteq> msg_timeout_range b"
  by (simp add: msg_timeout_format_def msg_timeout_range_def)

lemma check_timeout_examples:
  "check_timeout plain_interpreter (JObj ((ascii ''timeout'', JInt 0) # example_config)) =
     Inr (Some (invalid (msg_timeout_range (ascii ''0'')) (ascii ''timeout'')))"
  "check_timeout plain_interpreter (JObj ((ascii ''timeout'', JInt 301) # example_config)) =
     Inr (Some (invalid (msg_timeout_range (ascii ''301'')) (ascii ''timeout'')))"
  "check_timeout plain_interpreter (JObj ((ascii ''timeout'', JStr (ascii ''soon'')) # example_config)) =
     Inr (Some (invalid (msg_timeout_format (ascii ''soon'')) (ascii ''timeout'')))"
  "check_timeout plain_interpreter (JObj ((ascii ''timeout'', JInt 30) # example_config)) = Inr None"
  by (simp_all add: check_timeout_def dict_get_def and_then_def py_int_def invalid_def
      str_int_def ascii_def plain_interpreter_def decimal_def strip_def isspace_def)

text \<open>
  Claim C8. The claim says that a timeout that fails to parse as an integer gives the
  format error of the field \<open>timeout\<close>. The code does so when \<open>int\<close> raises
  \<open>ValueError\<close> or \<open>TypeError\<close>, the two exceptions its handler names. For the float
  infinity, which \<open>json.load\<close> reads from \<open>1e999\<close> or \<open>Infinity\<close>, \<open>int\<close> raises
  \<open>OverflowError\<close>: the three checks before pass, the handler of the block does not
  catch the exception, and the result is the one of the outer handler, with the field
  \<open>unknown\<close> and the text of the exception in place of the format message.
\<close>

theorem timeout_infinity_unknown:
  "check_api_key DEEPSEEK (JObj (example_config @ [(ascii ''timeout'', JFloat PosInf)])) = Inr None
   \<and> check_base_url DEEPSEEK (JObj (example_config @ [(ascii ''timeout'', JFloat PosInf)])) = Inr None
   \<and> check_model DEEPSEEK (JObj (example_config @ [(ascii ''timeout'', JFloat PosInf)])) = Inr None
   \<and> py_int rt (JFloat PosInf) = Inl (Raised OverflowError ''int'' (JFloat PosInf))
   \<and> validate_config rt DEEPSEEK (JObj (example_config @ [(ascii ''timeout'', JFloat PosInf)])) =
       \<lparr>valid = False,
        error = Some (msg_validate_exception (exc_text rt OverflowError ''int'' (JFloat PosInf))),
        field = Some (ascii ''unknown'')\<rparr>"
  by (simp add: validation_defs)

section \<open>Validation: the optional keys\<close>

text \<open>
  Claim C10, as stated, fails: a configuration that passes the first three checks and
  has no \<open>timeout\<close> and no \<open>temperature\<close> is still rejected when its \<open>max_tokens\<close>
  is 0.
\<close>

theorem optional_keys_counterexample:
  "check_api_key DEEPSEEK (JObj (example_config @ [(ascii ''max_tokens'', JInt 0)])) = Inr None
   \<and> check_base_url DEEPSEEK (JObj (example_config @ [(ascii ''max_tokens'', JInt 0)])) = Inr None
   \<and> check_model DEEPSEEK (JObj (example_config @ [(ascii ''max_tokens'', JInt 0)])) = Inr None
   \<and> map_of (example_config @ [(ascii ''max_tokens'', JInt 0)]) (ascii ''timeout'') = None
   \<and> map_of (example_config @ [(ascii ''max_tokens'', JInt 0)]) (ascii ''temperature'') = None
   \<and> \<not> valid (validate_config plain_interpreter DEEPSEEK
          (JObj (example_config @ [(ascii ''max_tokens'', JInt 0)])))"
  by (simp add: validation_defs)

text \<open>
  Claim C10, amended. \<open>timeout\<close>, \<open>max_tokens\<close> and \<open>temperature\<close> are optional: for
  a configuration that passes the api_key, base_url and model checks, a key that is
  omitted is checked as its default (30, 200 and 0.1), which passes; and the result is
  \<open>valid\<close> true when each of the three keys is omitted or passes its own check, so in
  particular when all three are omitted.
\<close>

theorem optional_keys_default:
  assumes "check_api_key p (JObj kvs) = Inr None"
    and "check_base_url p (JObj kvs) = Inr None"
    and "check_model p (JObj kvs) = Inr None"
  shows
    "(map_of kvs (ascii ''timeout'') = None \<longrightarrow>
        check_timeout rt (JObj kvs) = check_timeout rt (JObj ((ascii ''timeout'', JInt 30) # kvs))
        \<and> check_timeout rt (JObj kvs) = Inr None)
     \<and> (map_of kvs (ascii ''max_tokens'') = None \<longrightarrow>
        check_max_tokens rt (JObj kvs) = check_max_tokens rt (JObj ((ascii ''max_tokens'', JInt 200) # kvs))
        \<and> check_max_tokens rt (JObj kvs) = Inr None)
     \<and> (map_of kvs (ascii ''temperature'') = None \<longrightarrow>
        check_temperature rt (JObj kvs) =
          check_temperature rt (JObj ((ascii ''temperature'', JFloat (Finite 3602879701896397 (- 55))) # kvs))
        \<and> check_temperature rt (JObj kvs) = Inr None)
     \<and> ((map_of kvs (ascii ''timeout'') = None \<or> check_timeout rt (JObj kvs) = Inr None)
        \<and> (map_of kvs (ascii ''max_tokens'') = None \<or> check_max_tokens rt (JObj kvs) = Inr None)
        \<and> (map_of kvs (ascii ''temperature'') = None \<or> check_temperature rt (JObj kvs) = Inr None)
        \<longrightarrow> validate_config rt p (JObj kvs) = \<lparr>valid = True, error = None, field = None\<rparr>)"
proof -
  have t: "check_timeout rt (JObj kvs) = check_timeout rt (JObj ((ascii ''timeout'', JInt 30) # kvs))
      \<and> check_timeout rt (JObj kvs) = Inr None"
    if "map_of kvs (ascii ''timeout'') = None"
    using that by (simp add: check_timeout_def dict_get_def and_then_def py_int_def)
  have m: "check_max_tokens rt (JObj kvs) = check_max_tokens rt (JObj ((ascii ''max_tokens'', JInt 200) # kvs))
      \<and> check_max_tokens rt (JObj kvs) = Inr None"
    if "map_of kvs (ascii ''max_tokens'') = None"
    using that by (simp add: check_max_tokens_def dict_get_def and_then_def py_int_def)
  have f: "check_temperature rt (JObj kvs) =
          check_temperature rt (JObj ((ascii ''temperature'', JFloat (Finite 3602879701896397 (- 55))) # kvs))
      \<and> check_temperature rt (JObj kvs) = Inr None"
    if "map_of kvs (ascii ''temperature'') = None"
    using that
    by (simp add: check_temperature_def dict_get_def and_then_def py_float_def default_temperature_def)
  have v: "validate_config rt p (JObj kvs) = \<lparr>valid = True, error = None, field = None\<rparr>"
    if "check_timeout rt (JObj kvs) = Inr None" "check_max_tokens rt (JObj kvs) = Inr None"
      "check_temperature rt (JObj kvs) = Inr None"
    using that assms by (simp add: validate_config_def checks_def)
  show ?thesis
    using t m f v by blast
qed

text \<open>
  Claim C10, amended, at the deepseek configuration that has none of the three keys.
\<close>

theorem optional_keys_default_witness:
  "check_api_key DEEPSEEK (JObj example_config) = Inr None
   \<and> check_base_url DEEPSEEK (JObj example_config) = Inr None
   \<and> check_model DEEPSEEK (JObj example_config) = Inr None
   \<and> map_of example_config (ascii ''timeout'') = None
   \<and> map_of example_config (ascii ''max_tokens'') = None
   \<and> map_of example_config (ascii ''temperature'') = None
   \<and> check_timeout plain_interpreter (JObj example_config) = Inr None
   \<and> check_max_tokens plain_interpreter (JObj example_config) = Inr None
   \<and> check_temperature plain_interpreter (JObj example_config) = Inr None
   \<and> validate_config plain_interpreter DEEPSEEK (JObj example_config) =
       \<lparr>valid = True, error = None, field = None\<rparr>"
proof -
  have a: "check_api_key DEEPSEEK (JObj example_config) = Inr None"
    and b: "check_base_url DEEPSEEK (JObj example_config) = Inr None"
    and c: "check_model DEEPSEEK (JObj example_config) = Inr None"
    by (simp_all add: validation_defs)
  have t: "map_of example_config (ascii ''timeout'') = None"
    and m: "map_of example_config (ascii ''max_tokens'') = None"
    and f: "map_of example_config (ascii ''temperature'') = None"
    by (simp_all add: example_config_def ascii_def)
  from optional_keys_default [OF a b c, of plain_interpreter] a b c t m f show ?thesis
    by blast
qed

section \<open>Single-provider calls: what every result carries\<close>

lemma tagged_failure: "tagged name task (failure name e task)"
  by (simp add: tagged_def failure_def)

lemma tagged_succeeded: "tagged name task (succeeded name s u)"
  by (simp add: tagged_def succeeded_def)

lemma tagged_plain_handler: "tagged name task (plain_handler rt name task e)"
  by (simp add: plain_handler_def tagged_failure)

lemma and_then_Inr: "and_then m f = Inr r \<longleftrightarrow> (\<exists>x. m = Inr x \<and> f x = Inr r)"
  by (cases m) (simp_all add: and_then_def)

lemma chat_response_tagged: "chat_response name task status result text = Inr r \<Longrightarrow> tagged name task r"
  by (auto simp: chat_response_def and_then_Inr tagged_failure tagged_succeeded split: if_splits)

lemma chat_request_tagged: "chat_request name task config out = Inr r \<Longrightarrow> tagged name task r"
  by (cases out) (auto simp: and_then_Inr dest: chat_response_tagged)

lemma deepseek_handler_tagged: "deepseek_handler rt task config e = Inr r \<Longrightarrow> tagged (ascii ''deepseek'') task r"
  by (auto simp: deepseek_handler_def and_then_Inr Let_def tagged_failure split: if_splits)

lemma yuanbao_handler_tagged: "yuanbao_handler rt task config e = Inr r \<Longrightarrow> tagged (ascii ''yuanbao'') task r"
  by (auto simp: yuanbao_handler_def and_then_Inr Let_def tagged_failure split: if_splits)

lemma wenxin_response_tagged: "wenxin_response task status result text = Inr r \<Longrightarrow> tagged (ascii ''wenxin'') task r"
  by (auto simp: wenxin_response_def and_then_Inr tagged_failure tagged_succeeded split: if_splits)

lemma wenxin_request_tagged: "wenxin_request task config out = Inr r \<Longrightarrow> tagged (ascii ''wenxin'') task r"
  by (cases out) (auto simp: and_then_Inr dest: wenxin_response_tagged)

lemma sdk_request_tagged: "sdk_request name usage_of config out = Inr r \<Longrightarrow> tagged name task r"
  by (cases out) (auto simp: and_then_Inr tagged_succeeded)

lemma call_deepseek_tagged: "call_deepseek rt task config out = Inr r \<Longrightarrow> tagged (ascii ''deepseek'') task r"
  by (auto simp: call_deepseek_def split: sum.splits dest: chat_request_tagged deepseek_handler_tagged)

lemma call_doubao_tagged: "call_doubao rt task config out = Inr r \<Longrightarrow> tagged (ascii ''doubao'') task r"
  by (auto simp: call_doubao_def tagged_plain_handler split: sum.splits dest: chat_request_tagged)

lemma call_openai_tagged: "call_openai rt task config out = Inr r \<Longrightarrow> tagged (ascii ''openai'') task r"
  by (auto simp: call_openai_def tagged_plain_handler split: sum.splits dest: chat_request_tagged)

lemma call_wenxin_tagged: "call_wenxin rt task config out = Inr r \<Longrightarrow> tagged (ascii ''wenxin'') task r"
  by (auto simp: call_wenxin_def tagged_plain_handler split: sum.splits dest: wenxin_request_tagged)

lemma call_yuanbao_tagged: "call_yuanbao rt task config out = Inr r \<Longrightarrow> tagged (ascii ''yuanbao'') task r"
  by (auto simp: call_yuanbao_def split: sum.splits dest: sdk_request_tagged yuanbao_handler_tagged)

lemma call_tongyi_tagged: "call_tongyi rt task config out = Inr r \<Longrightarrow> tagged (ascii ''tongyi'') task r"
  by (auto simp: call_tongyi_def tagged_plain_handler split: sum.splits dest: sdk_request_tagged)

lemma call_adapter_tagged: "call_adapter rt p task config out = Inr r \<Longrightarrow> tagged (value p) task r"
  by (cases p)
    (auto simp: call_adapter_def call_gemini_def call_claude_def call_glm_def tagged_failure
      dest: call_deepseek_tagged call_doubao_tagged call_openai_tagged call_wenxin_tagged
        call_yuanbao_tagged call_tongyi_tagged)

lemma simplify_task_async_tagged: "tagged (value p) task (simplify_task_async rt configs task p out)"
proof (cases "configs p")
  case None
  then show ?thesis by (simp add: simplify_task_async_def tagged_def)
next
  case (Some config)
  show ?thesis
  proof (cases "valid (validate_config rt p config)")
    case False
    with invalid_reports [OF False] Some show ?thesis
      by (auto simp: simplify_task_async_def tagged_def reports_error_def)
  next
    case True
    with Some show ?thesis
      by (auto simp: simplify_task_async_def tagged_failure split: sum.splits dest: call_adapter_tagged)
  qed
qed

section \<open>Single-provider calls: providers without configuration\<close>

text \<open>
  Claim C6. For a provider that has no entry in the configurations,
  \<open>simplify_task_async\<close> returns \<open>success\<close> false, the message that names the
  provider whose configuration is missing, the task as it was given, and no \<open>field\<close>
  key; and it does so whatever the interpreter and the outside world would answer, that
  is, without validating a configuration and without calling an adapter.
\<close>

theorem unconfigured_provider_rejected:
  assumes "configs p = None"
  shows "simplify_task_async rt configs task p out =
           \<lparr>success = False, provider = Some (value p),
            error = Some (msg_not_configured (value p)), field = None,
            simplified_task = task, usage = None\<rparr>
     \<and> simplify_task_async rt configs task p out = simplify_task_async rt' configs task p out'
     \<and> msg_not_configured (value p) =
          [26410, 25214, 21040] @ value p
            @ [24179, 21488, 30340, 37197, 32622, 65292, 35831, 22312] @ ascii ''API''
            @ [37197, 32622, 39029, 38754, 28155, 21152, 37197, 32622]"
  using assms by (simp add: simplify_task_async_def msg_not_configured_def)

text \<open>Claim C6 at gemini, with no configuration at all.\<close>

theorem unconfigured_provider_rejected_witness:
  "Map.empty GEMINI = (None :: json option)
   \<and> simplify_task_async plain_interpreter Map.empty (ascii ''open the app'') GEMINI (example_outs 0) =
       \<lparr>success = False, provider = Some (value GEMINI),
        error = Some (msg_not_configured (value GEMINI)), field = None,
        simplified_task = ascii ''open the app'', usage = None\<rparr>"
proof -
  have h: "Map.empty GEMINI = (None :: json option)" by simp
  from unconfigured_provider_rejected
    [where configs = Map.empty and p = GEMINI, OF h] h
  show ?thesis by blast
qed

section \<open>Single-provider calls: configurations that fail validation\<close>

text \<open>
  Claim C9. For a provider whose configuration fails validation,
  \<open>simplify_task_async\<close> returns \<open>success\<close> false, the error and the field of the
  validation result (both are there), and the task as it was given.
\<close>

theorem validation_failure_returned:
  assumes "configs p = Some config"
    and "\<not> valid (validate_config rt p config)"
  shows "simplify_task_async rt configs task p out =
           \<lparr>success = False, provider = Some (value p),
            error = validation_result.error (validate_config rt p config),
            field = validation_result.field (validate_config rt p config),
            simplified_task = task, usage = None\<rparr>
     \<and> (\<exists>m f. validation_result.error (validate_config rt p config) = Some m
           \<and> validation_result.field (validate_config rt p config) = Some f)"
  using assms invalid_reports [OF assms(2)]
  by (auto simp: simplify_task_async_def reports_error_def)

text \<open>Claim C9 at a deepseek configuration with an empty key.\<close>

theorem validation_failure_returned_witness:
  "[DEEPSEEK \<mapsto> JObj [(ascii ''api_key'', JStr [])]] DEEPSEEK = Some (JObj [(ascii ''api_key'', JStr [])])
   \<and> \<not> valid (validate_config plain_interpreter DEEPSEEK (JObj [(ascii ''api_key'', JStr [])]))
   \<and> simplify_task_async plain_interpreter [DEEPSEEK \<mapsto> JObj [(ascii ''api_key'', JStr [])]]
        (ascii ''open the app'') DEEPSEEK (example_outs 0) =
       \<lparr>success = False, provider = Some (value DEEPSEEK),
        error = validation_result.error (validate_config plain_interpreter DEEPSEEK (JObj [(ascii ''api_key'', JStr [])])),
        field = validation_result.field (validate_config plain_interpreter DEEPSEEK (JObj [(ascii ''api_key'', JStr [])])),
        simplified_task = ascii ''open the app'', usage = None\<rparr>
   \<and> validation_result.field (validate_config plain_interpreter DEEPSEEK (JObj [(ascii ''api_key'', JStr [])]))
        = Some (ascii ''api_key'')"
proof -
  let ?c = "JObj [(ascii ''api_key'', JStr [])]"
  have h1: "[DEEPSEEK \<mapsto> ?c] DEEPSEEK = Some ?c" by simp
  have v: "validate_config plain_interpreter DEEPSEEK ?c =
      invalid (value DEEPSEEK @ msg_api_key_empty) (ascii ''api_key'')"
    by (simp add: validate_config_def checks_def check_api_key_def dict_get_def and_then_def
        str_strip_def strip_def)
  then have h2: "\<not> valid (validate_config plain_interpreter DEEPSEEK ?c)"
    by (simp add: invalid_def)
  from v have f: "validation_result.field (validate_config plain_interpreter DEEPSEEK ?c)
        = Some (ascii ''api_key'')"
    by (simp add: invalid_def)
  from validation_failure_returned
    [where configs = "[DEEPSEEK \<mapsto> ?c]" and p = DEEPSEEK and config = ?c
       and rt = plain_interpreter, OF h1 h2]
    h1 h2 f
  show ?thesis by blast
qed

section \<open>The adapters: the text of a successful result\<close>
























section \<open>Multi-provider calls\<close>

lemma provider_results_map:
  "provider_results rt configs task providers outs =
     map (\<lambda>i. simplify_task_async rt configs task (providers ! i) (outs i)) [0..<length providers]"
  by (rule nth_equalityI) (simp_all add: provider_results_def collect_def gather_def nth_enumerate_eq)

lemma min_by_cases:
  "(min_by key b xs = b \<and> (\<forall>y\<in>set xs. key b \<le> key y))
   \<or> (\<exists>pre post. xs = pre @ min_by key b xs # post \<and> key (min_by key b xs) < key b
        \<and> (\<forall>y\<in>set pre. key (min_by key b xs) < key y)
        \<and> (\<forall>y\<in>set post. key (min_by key b xs) \<le> key y))"
proof (induction xs arbitrary: b)
  case Nil
  then show ?case by simp
next
  case (Cons x xs)
  show ?case
  proof (cases "key x < key b")
    case True
    from Cons.IH [of x] show ?thesis
    proof
      assume "min_by key x xs = x \<and> (\<forall>y\<in>set xs. key x \<le> key y)"
      with True have "x # xs = [] @ min_by key b (x # xs) # xs \<and> key (min_by key b (x # xs)) < key b
        \<and> (\<forall>y\<in>set []. key (min_by key b (x # xs)) < key y)
        \<and> (\<forall>y\<in>set xs. key (min_by key b (x # xs)) \<le> key y)" by simp
      then show ?thesis by blast
    next
      assume "\<exists>pre post. xs = pre @ min_by key x xs # post \<and> key (min_by key x xs) < key x
        \<and> (\<forall>y\<in>set pre. key (min_by key x xs) < key y)
        \<and> (\<forall>y\<in>set post. key (min_by key x xs) \<le> key y)"
      then obtain pre post where "xs = pre @ min_by key x xs # post" "key (min_by key x xs) < key x"
        "\<forall>y\<in>set pre. key (min_by key x xs) < key y" "\<forall>y\<in>set post. key (min_by key x xs) \<le> key y"
        by blast
      with True have "x # xs = (x # pre) @ min_by key b (x # xs) # post
        \<and> key (min_by key b (x # xs)) < key b
        \<and> (\<forall>y\<in>set (x # pre). key (min_by key b (x # xs)) < key y)
        \<and> (\<forall>y\<in>set post. key (min_by key b (x # xs)) \<le> key y)" by simp
      then show ?thesis by blast
    qed
  next
    case False
    from Cons.IH [of b] show ?thesis
    proof
      assume "min_by key b xs = b \<and> (\<forall>y\<in>set xs. key b \<le> key y)"
      with False show ?thesis by simp
    next
      assume "\<exists>pre post. xs = pre @ min_by key b xs # post \<and> key (min_by key b xs) < key b
        \<and> (\<forall>y\<in>set pre. key (min_by key b xs) < key y)
        \<and> (\<forall>y\<in>set post. key (min_by key b xs) \<le> key y)"
      then obtain pre post where "xs = pre @ min_by key b xs # post" "key (min_by key b xs) < key b"
        "\<forall>y\<in>set pre. key (min_by key b xs) < key y" "\<forall>y\<in>set post. key (min_by key b xs) \<le> key y"
        by blast
      with False have "x # xs = (x # pre) @ min_by key b (x # xs) # post
        \<and> key (min_by key b (x # xs)) < key b
        \<and> (\<forall>y\<in>set (x # pre). key (min_by key b (x # xs)) < key y)
        \<and> (\<forall>y\<in>set post. key (min_by key b (x # xs)) \<le> key y)" by simp
      then show ?thesis by blast
    qed
  qed
qed

lemma min_by_split:
  "\<exists>pre post. b # xs = pre @ min_by key b xs # post
     \<and> (\<forall>y\<in>set pre. key (min_by key b xs) < key y)
     \<and> (\<forall>y\<in>set post. key (min_by key b xs) \<le> key y)"
proof -
  from min_by_cases [of key b xs] show ?thesis
  proof
    assume "min_by key b xs = b \<and> (\<forall>y\<in>set xs. key b \<le> key y)"
    then have "b # xs = [] @ min_by key b xs # xs
     \<and> (\<forall>y\<in>set []. key (min_by key b xs) < key y)
     \<and> (\<forall>y\<in>set xs. key (min_by key b xs) \<le> key y)" by simp
    then show ?thesis by blast
  next
    assume "\<exists>pre post. xs = pre @ min_by key b xs # post \<and> key (min_by key b xs) < key b
        \<and> (\<forall>y\<in>set pre. key (min_by key b xs) < key y)
        \<and> (\<forall>y\<in>set post. key (min_by key b xs) \<le> key y)"
    then obtain pre post where "xs = pre @ min_by key b xs # post" "key (min_by key b xs) < key b"
        "\<forall>y\<in>set pre. key (min_by key b xs) < key y" "\<forall>y\<in>set post. key (min_by key b xs) \<le> key y"
      by blast
    then have "b # xs = (b # pre) @ min_by key b xs # post
     \<and> (\<forall>y\<in>set (b # pre). key (min_by key b xs) < key y)
     \<and> (\<forall>y\<in>set post. key (min_by key b xs) \<le> key y)" by simp
    then show ?thesis by blast
  qed
qed

lemma filter_split:
  "filter P xs = pre @ m # post \<Longrightarrow>
   \<exists>pre' post'. xs = pre' @ m # post' \<and> filter P pre' = pre \<and> filter P post' = post \<and> P m"
proof (induction xs arbitrary: pre)
  case Nil
  then show ?case by simp
next
  case (Cons x xs)
  show ?case
  proof (cases "P x")
    case False
    with Cons.prems have "filter P xs = pre @ m # post" by simp
    from Cons.IH [OF this] obtain pre' post' where
      "xs = pre' @ m # post'" "filter P pre' = pre" "filter P post' = post" "P m" by blast
    with False have "x # xs = (x # pre') @ m # post' \<and> filter P (x # pre') = pre
      \<and> filter P post' = post \<and> P m" by simp
    then show ?thesis by blast
  next
    case True
    show ?thesis
    proof (cases pre)
      case Nil
      with True Cons.prems have "x # xs = [] @ m # xs \<and> filter P [] = pre
        \<and> filter P xs = post \<and> P m" by simp
      then show ?thesis by blast
    next
      case (Cons p pre2)
      with True Cons.prems have px: "p = x" and "filter P xs = pre2 @ m # post" by simp_all
      from Cons.IH [OF this(2)] obtain pre' post' where
        "xs = pre' @ m # post'" "filter P pre' = pre2" "filter P post' = post" "P m" by blast
      with True Cons px have "x # xs = (x # pre') @ m # post' \<and> filter P (x # pre') = pre
        \<and> filter P post' = post \<and> P m" by simp
      then show ?thesis by blast
    qed
  qed
qed

lemma select_best_winner:
  assumes "\<exists>r\<in>set rs. success r"
  shows "\<exists>i<length rs. select_best task rs = attach (rs ! i) rs \<and> success (rs ! i)
      \<and> (\<forall>j<length rs. success (rs ! j) \<longrightarrow>
            length (simplified_task (rs ! i)) \<le> length (simplified_task (rs ! j)))
      \<and> (\<forall>j<i. success (rs ! j) \<longrightarrow>
            length (simplified_task (rs ! i)) < length (simplified_task (rs ! j)))"
proof -
  let ?key = "\<lambda>x. length (simplified_task x)"
  from assms have "filter success rs \<noteq> []" by (simp add: filter_empty_conv)
  then obtain r rest where fr: "filter success rs = r # rest" by (cases "filter success rs") auto
  define m where "m = min_by ?key r rest"
  from fr have sel: "select_best task rs = attach m rs" by (simp add: select_best_def m_def)
  from min_by_split [of r rest ?key] obtain pre post where
    sp: "r # rest = pre @ m # post" and lt: "\<forall>y\<in>set pre. ?key m < ?key y"
    and le: "\<forall>y\<in>set post. ?key m \<le> ?key y" unfolding m_def by blast
  from fr sp have "filter success rs = pre @ m # post" by simp
  from filter_split [OF this] obtain pre' post' where
    rs: "rs = pre' @ m # post'" and fpre: "filter success pre' = pre"
    and fpost: "filter success post' = post" and sm: "success m" by blast
  have pre_lt: "?key m < ?key y" if "y \<in> set pre'" "success y" for y
  proof -
    from that fpre have "y \<in> set pre" by auto
    with lt show ?thesis by blast
  qed
  have post_le: "?key m \<le> ?key y" if "y \<in> set post'" "success y" for y
  proof -
    from that fpost have "y \<in> set post" by auto
    with le show ?thesis by blast
  qed
  have i: "length pre' < length rs" and at: "rs ! length pre' = m" by (simp_all add: rs)
  have all_le: "?key m \<le> ?key (rs ! j)" if "j < length rs" "success (rs ! j)" for j
  proof -
    consider "j < length pre'" | "j = length pre'" | "length pre' < j" by linarith
    then show ?thesis
    proof cases
      case 1
      then have "rs ! j \<in> set pre'" by (simp add: rs nth_append)
      with that pre_lt show ?thesis by (simp add: less_imp_le)
    next
      case 2
      with at show ?thesis by simp
    next
      case 3
      then obtain k where k: "j = length pre' + Suc k" using less_iff_Suc_add by auto
      with that rs have "k < length post'" by simp
      moreover from k have "rs ! j = post' ! k" by (simp add: rs nth_append)
      ultimately have "rs ! j \<in> set post'" by simp
      with that post_le show ?thesis by simp
    qed
  qed
  have before: "?key m < ?key (rs ! j)" if "j < length pre'" "success (rs ! j)" for j
  proof -
    from that have "rs ! j \<in> set pre'" by (simp add: rs nth_append)
    with that pre_lt show ?thesis by simp
  qed
  from i at sel sm all_le before show ?thesis by blast
qed

text \<open>
  Claim C2. With \<open>rs\<close> the results of the providers, one per provider in the order of
  the list: when one of them has \<open>success\<close> true, \<open>simplify_task_multiple_providers\<close>
  returns a successful result of a provider \<open>i\<close> whose \<open>simplified_task\<close> is no
  longer than that of any successful result and shorter than that of every successful
  result of an earlier provider, with \<open>all_results\<close> the whole list \<open>rs\<close>.
\<close>

theorem multiple_providers_shortest_wins:
  assumes "rs = provider_results rt configs task providers outs"
    and "\<exists>r\<in>set rs. success r"
  shows "length rs = length providers
     \<and> (\<forall>i<length providers. rs ! i = simplify_task_async rt configs task (providers ! i) (outs i))
     \<and> (\<exists>i<length providers.
          simplify_task_multiple_providers rt configs task providers outs = attach (rs ! i) rs
          \<and> call_result.truncate (simplify_task_multiple_providers rt configs task providers outs) = rs ! i
          \<and> all_results (simplify_task_multiple_providers rt configs task providers outs) = Some rs
          \<and> success (rs ! i)
          \<and> (\<forall>j<length providers. success (rs ! j) \<longrightarrow>
                length (simplified_task (rs ! i)) \<le> length (simplified_task (rs ! j)))
          \<and> (\<forall>j<i. success (rs ! j) \<longrightarrow>
                length (simplified_task (rs ! i)) < length (simplified_task (rs ! j))))"
proof -
  have len: "length rs = length providers"
    by (simp add: assms(1) provider_results_map)
  have nth: "\<forall>i<length providers. rs ! i = simplify_task_async rt configs task (providers ! i) (outs i)"
    by (simp add: assms(1) provider_results_map)
  have m: "simplify_task_multiple_providers rt configs task providers outs = select_best task rs"
    by (simp add: simplify_task_multiple_providers_def assms(1))
  have tr: "call_result.truncate (attach r rs) = r" for r
    by (simp add: attach_def call_result.truncate_def)
  have al: "all_results (attach r rs) = Some rs" for r
    by (simp add: attach_def)
  from select_best_winner [OF assms(2), of task] len nth m tr al show ?thesis
    by (metis (no_types, lifting))
qed

lemma example_results:
  "provider_results plain_interpreter example_configs (ascii ''open the app'')
      [WENXIN, TONGYI, GEMINI, WENXIN] example_outs =
     [succeeded (ascii ''wenxin'') (ascii ''tap the red button'') (JObj []),
      succeeded (ascii ''tongyi'') (ascii ''go'') (JObj []),
      failure (ascii ''gemini'') (msg_not_configured (ascii ''gemini'')) (ascii ''open the app''),
      succeeded (ascii ''wenxin'') (ascii ''go'') (JObj [])]"
  by (simp add: orchestrator_defs validation_defs adapter_defs upt_rec)

text \<open>
  Claim C2 at four calls: wenxin with a long text, tongyi with \<open>go\<close>, gemini without
  configuration, wenxin with \<open>go\<close>. The two shortest tie; the earlier one, tongyi, is
  returned.
\<close>

theorem multiple_providers_shortest_wins_witness:
  "(\<exists>r\<in>set (provider_results plain_interpreter example_configs (ascii ''open the app'')
              [WENXIN, TONGYI, GEMINI, WENXIN] example_outs). success r)
   \<and> (\<exists>i<length [WENXIN, TONGYI, GEMINI, WENXIN].
        call_result.truncate (simplify_task_multiple_providers plain_interpreter example_configs
            (ascii ''open the app'') [WENXIN, TONGYI, GEMINI, WENXIN] example_outs)
          = simplify_task_async plain_interpreter example_configs (ascii ''open the app'')
              ([WENXIN, TONGYI, GEMINI, WENXIN] ! i) (example_outs i))
   \<and> simplify_task_multiple_providers plain_interpreter example_configs
        (ascii ''open the app'') [WENXIN, TONGYI, GEMINI, WENXIN] example_outs =
      attach (succeeded (ascii ''tongyi'') (ascii ''go'') (JObj []))
        [succeeded (ascii ''wenxin'') (ascii ''tap the red button'') (JObj []),
         succeeded (ascii ''tongyi'') (ascii ''go'') (JObj []),
         failure (ascii ''gemini'') (msg_not_configured (ascii ''gemini'')) (ascii ''open the app''),
         succeeded (ascii ''wenxin'') (ascii ''go'') (JObj [])]"
proof -
  let ?rs = "provider_results plain_interpreter example_configs (ascii ''open the app'')
              [WENXIN, TONGYI, GEMINI, WENXIN] example_outs"
  have h: "\<exists>r\<in>set ?rs. success r"
    by (simp add: example_results succeeded_def)
  have ev: "simplify_task_multiple_providers plain_interpreter example_configs
        (ascii ''open the app'') [WENXIN, TONGYI, GEMINI, WENXIN] example_outs =
      attach (succeeded (ascii ''tongyi'') (ascii ''go'') (JObj []))
        [succeeded (ascii ''wenxin'') (ascii ''tap the red button'') (JObj []),
         succeeded (ascii ''tongyi'') (ascii ''go'') (JObj []),
         failure (ascii ''gemini'') (msg_not_configured (ascii ''gemini'')) (ascii ''open the app''),
         succeeded (ascii ''wenxin'') (ascii ''go'') (JObj [])]"
    unfolding simplify_task_multiple_providers_def example_results
    by (simp add: select_best_def succeeded_def failure_def ascii_def)
  from multiple_providers_shortest_wins [OF refl h]
  have "\<exists>i<length [WENXIN, TONGYI, GEMINI, WENXIN].
        call_result.truncate (simplify_task_multiple_providers plain_interpreter example_configs
            (ascii ''open the app'') [WENXIN, TONGYI, GEMINI, WENXIN] example_outs)
          = simplify_task_async plain_interpreter example_configs (ascii ''open the app'')
              ([WENXIN, TONGYI, GEMINI, WENXIN] ! i) (example_outs i)"
    by metis
  with h ev show ?thesis by blast
qed

lemma error_detail_tagged:
  "tagged name task r \<Longrightarrow> error r = Some e \<Longrightarrow>
   error_detail r = [8226] @ ascii '' '' @ upper name @ ascii '': '' @ e"
  by (simp add: error_detail_def tagged_def)

lemma join_upto_three:
  "length xs \<le> 3 \<Longrightarrow>
   join sep xs =
     (case xs of
        [] \<Rightarrow> []
      | [a] \<Rightarrow> a
      | [a, b] \<Rightarrow> a @ sep @ b
      | a # b # c # _ \<Rightarrow> a @ sep @ b @ sep @ c)"
  by (auto split: list.splits)

lemma decimal_nat_snoc:
  "48 \<le> c \<Longrightarrow> c \<le> 57 \<Longrightarrow>
   decimal_nat acc (xs @ [c]) = map_option (\<lambda>v. 10 * v + (c - 48)) (decimal_nat acc xs)"
  by (induction xs arbitrary: acc) auto

lemma decimal_nat_digits: "decimal_nat 0 (digits n) = Some n"
proof (induction n rule: digits.induct)
  case (1 n)
  show ?case
  proof (cases "n < 10")
    case True
    then show ?thesis by simp
  next
    case False
    have d: "48 \<le> 48 + n mod 10" "48 + n mod 10 \<le> 57" by simp_all
    from False have "digits n = digits (n div 10) @ [48 + n mod 10]" by simp
    then have "decimal_nat 0 (digits n) =
        map_option (\<lambda>v. 10 * v + (48 + n mod 10 - 48)) (decimal_nat 0 (digits (n div 10)))"
      by (simp only: decimal_nat_snoc [OF d])
    with 1 [OF False] show ?thesis by simp
  qed
qed

text \<open>
  Claim C3. When every result has \<open>success\<close> false, with \<open>N\<close> the number of
  providers: the returned result has \<open>success\<close> false, the task as it was given,
  \<open>all_results\<close> the whole list, and an error made of the heading (all AI platforms
  failed, a colon and two newlines), the lines of the first three results with a
  newline between them, and, exactly when \<open>N > 3\<close>, the suffix: two newlines, the
  two characters for \<open>there are\<close>, the decimal numeral of \<open>N - 3\<close>, the six characters
  for \<open>more platforms' errors\<close> and three dots. With \<open>N\<close> at most 3 nothing follows the
  lines. The line of result \<open>i\<close> is the bullet, a blank, the name of provider \<open>i\<close> in
  upper case, a colon, a blank and the error of that result. The numeral reads back as
  \<open>N - 3\<close>.
\<close>

theorem multiple_providers_all_failed:
  assumes "rs = provider_results rt configs task providers outs"
    and "\<forall>r\<in>set rs. \<not> success r"
  shows "length rs = length providers
     \<and> (\<forall>i<length providers. rs ! i = simplify_task_async rt configs task (providers ! i) (outs i))
     \<and> (\<forall>i<length providers. \<exists>e. error (rs ! i) = Some e
          \<and> error_detail (rs ! i) = [8226] @ ascii '' '' @ upper (value (providers ! i)) @ ascii '': '' @ e)
     \<and> simplify_task_multiple_providers rt configs task providers outs =
         \<lparr>success = False, provider = None,
          error = Some
            ([25152, 26377] @ ascii ''AI'' @ [24179, 21488, 37117, 22833, 36133, 20102]
               @ ascii '':'' @ [10, 10]
             @ (case map error_detail (take 3 rs) of
                  [] \<Rightarrow> []
                | [a] \<Rightarrow> a
                | [a, b] \<Rightarrow> a @ [10] @ b
                | a # b # c # _ \<Rightarrow> a @ [10] @ b @ [10] @ c)
             @ (if 3 < length providers
                then [10, 10, 36824, 26377] @ str_int (int (length providers) - 3)
                       @ [20010, 24179, 21488, 30340, 38169, 35823] @ ascii ''...''
                else [])),
          field = None, simplified_task = task, usage = None, all_results = Some rs\<rparr>
     \<and> (3 < length providers \<longrightarrow>
          decimal_nat 0 (str_int (int (length providers) - 3)) = Some (length providers - 3))"
proof -
  have len: "length rs = length providers"
    by (simp add: assms(1) provider_results_map)
  have nth: "rs ! i = simplify_task_async rt configs task (providers ! i) (outs i)"
    if "i < length providers" for i
    using that by (simp add: assms(1) provider_results_map)
  have det: "\<exists>e. error (rs ! i) = Some e
      \<and> error_detail (rs ! i) = [8226] @ ascii '' '' @ upper (value (providers ! i)) @ ascii '': '' @ e"
    if "i < length providers" for i
  proof -
    from that len have "rs ! i \<in> set rs" by simp
    with assms(2) have ns: "\<not> success (rs ! i)" by blast
    have tg: "tagged (value (providers ! i)) task (rs ! i)"
      by (simp add: nth [OF that] simplify_task_async_tagged)
    with ns obtain e where e: "error (rs ! i) = Some e" by (auto simp: tagged_def)
    with error_detail_tagged [OF tg e] show ?thesis by blast
  qed
  have lines: "join [10] (map error_detail (take 3 rs)) =
      (case map error_detail (take 3 rs) of
         [] \<Rightarrow> []
       | [a] \<Rightarrow> a
       | [a, b] \<Rightarrow> a @ [10] @ b
       | a # b # c # _ \<Rightarrow> a @ [10] @ b @ [10] @ c)"
    by (rule join_upto_three) simp
  from assms(2) have "filter success rs = []" by (simp add: filter_empty_conv)
  then have "simplify_task_multiple_providers rt configs task providers outs =
         \<lparr>success = False, provider = None,
          error = Some (msg_summary_head @ join [10] (map error_detail (take 3 rs))
                    @ (if 3 < length providers
                       then msg_summary_more (str_int (int (length providers) - 3)) else [])),
          field = None, simplified_task = task, usage = None, all_results = Some rs\<rparr>"
    by (simp add: simplify_task_multiple_providers_def assms(1) [symmetric] select_best_def
        error_summary_def Let_def len take_map)
  then have res: "simplify_task_multiple_providers rt configs task providers outs =
         \<lparr>success = False, provider = None,
          error = Some
            ([25152, 26377] @ ascii ''AI'' @ [24179, 21488, 37117, 22833, 36133, 20102]
               @ ascii '':'' @ [10, 10]
             @ (case map error_detail (take 3 rs) of
                  [] \<Rightarrow> []
                | [a] \<Rightarrow> a
                | [a, b] \<Rightarrow> a @ [10] @ b
                | a # b # c # _ \<Rightarrow> a @ [10] @ b @ [10] @ c)
             @ (if 3 < length providers
                then [10, 10, 36824, 26377] @ str_int (int (length providers) - 3)
                       @ [20010, 24179, 21488, 30340, 38169, 35823] @ ascii ''...''
                else [])),
          field = None, simplified_task = task, usage = None, all_results = Some rs\<rparr>"
    by (simp only: lines msg_summary_head_def msg_summary_more_def append_assoc)
  have num: "decimal_nat 0 (str_int (int (length providers) - 3)) = Some (length providers - 3)"
    if "3 < length providers"
  proof -
    from that have "str_int (int (length providers) - 3) = digits (length providers - 3)"
      by (simp add: str_int_def nat_diff_distrib')
    then show ?thesis by (simp only: decimal_nat_digits)
  qed
  from len nth det res num show ?thesis by blast
qed

lemma no_results:
  "provider_results plain_interpreter Map.empty (ascii ''open the app'')
      [DEEPSEEK, DOUBAO, OPENAI, GEMINI] example_outs =
     [failure (ascii ''deepseek'') (msg_not_configured (ascii ''deepseek'')) (ascii ''open the app''),
      failure (ascii ''doubao'') (msg_not_configured (ascii ''doubao'')) (ascii ''open the app''),
      failure (ascii ''openai'') (msg_not_configured (ascii ''openai'')) (ascii ''open the app''),
      failure (ascii ''gemini'') (msg_not_configured (ascii ''gemini'')) (ascii ''open the app'')]"
  by (simp add: simplify_task_async_def provider_results_def collect_def gather_def
      enumerate_eq_zip failure_def upt_rec ascii_def)

lemma three_results:
  "provider_results plain_interpreter Map.empty (ascii ''open the app'')
      [DEEPSEEK, DOUBAO, OPENAI] example_outs =
     [failure (ascii ''deepseek'') (msg_not_configured (ascii ''deepseek'')) (ascii ''open the app''),
      failure (ascii ''doubao'') (msg_not_configured (ascii ''doubao'')) (ascii ''open the app''),
      failure (ascii ''openai'') (msg_not_configured (ascii ''openai'')) (ascii ''open the app'')]"
  by (simp add: simplify_task_async_def provider_results_def collect_def gather_def
      enumerate_eq_zip failure_def upt_rec ascii_def)

text \<open>
  Claim C3 at providers without configuration. With four of them the error has three
  lines and the suffix that quotes 1; with three of them it has the same three lines
  and ends there.
\<close>

theorem multiple_providers_all_failed_witness:
  "filter success (provider_results plain_interpreter Map.empty (ascii ''open the app'')
              [DEEPSEEK, DOUBAO, OPENAI, GEMINI] example_outs) = []
   \<and> error (simplify_task_multiple_providers plain_interpreter Map.empty
        (ascii ''open the app'') [DEEPSEEK, DOUBAO, OPENAI, GEMINI] example_outs) =
      Some ([25152, 26377] @ ascii ''AI'' @ [24179, 21488, 37117, 22833, 36133, 20102]
        @ ascii '':'' @ [10, 10]
        @ [8226] @ ascii '' DEEPSEEK: '' @ msg_not_configured (ascii ''deepseek'') @ [10]
        @ [8226] @ ascii '' DOUBAO: '' @ msg_not_configured (ascii ''doubao'') @ [10]
        @ [8226] @ ascii '' OPENAI: '' @ msg_not_configured (ascii ''openai'')
        @ [10, 10, 36824, 26377] @ ascii ''1''
        @ [20010, 24179, 21488, 30340, 38169, 35823] @ ascii ''...'')
   \<and> filter success (provider_results plain_interpreter Map.empty (ascii ''open the app'')
              [DEEPSEEK, DOUBAO, OPENAI] example_outs) = []
   \<and> error (simplify_task_multiple_providers plain_interpreter Map.empty
        (ascii ''open the app'') [DEEPSEEK, DOUBAO, OPENAI] example_outs) =
      Some ([25152, 26377] @ ascii ''AI'' @ [24179, 21488, 37117, 22833, 36133, 20102]
        @ ascii '':'' @ [10, 10]
        @ [8226] @ ascii '' DEEPSEEK: '' @ msg_not_configured (ascii ''deepseek'') @ [10]
        @ [8226] @ ascii '' DOUBAO: '' @ msg_not_configured (ascii ''doubao'') @ [10]
        @ [8226] @ ascii '' OPENAI: '' @ msg_not_configured (ascii ''openai''))"
proof -
  let ?rs = "provider_results plain_interpreter Map.empty (ascii ''open the app'')
              [DEEPSEEK, DOUBAO, OPENAI, GEMINI] example_outs"
  let ?rs3 = "provider_results plain_interpreter Map.empty (ascii ''open the app'')
              [DEEPSEEK, DOUBAO, OPENAI] example_outs"
  have h: "\<forall>r\<in>set ?rs. \<not> success r"
    by (simp add: no_results failure_def)
  have h3: "\<forall>r\<in>set ?rs3. \<not> success r"
    by (simp add: three_results failure_def)
  from multiple_providers_all_failed [OF refl h]
  have "simplify_task_multiple_providers plain_interpreter Map.empty
        (ascii ''open the app'') [DEEPSEEK, DOUBAO, OPENAI, GEMINI] example_outs =
         \<lparr>success = False, provider = None,
          error = Some
            ([25152, 26377] @ ascii ''AI'' @ [24179, 21488, 37117, 22833, 36133, 20102]
               @ ascii '':'' @ [10, 10]
             @ (case map error_detail (take 3 ?rs) of
                  [] \<Rightarrow> []
                | [a] \<Rightarrow> a
                | [a, b] \<Rightarrow> a @ [10] @ b
                | a # b # c # _ \<Rightarrow> a @ [10] @ b @ [10] @ c)
             @ (if 3 < length [DEEPSEEK, DOUBAO, OPENAI, GEMINI]
                then [10, 10, 36824, 26377] @ str_int (int (length [DEEPSEEK, DOUBAO, OPENAI, GEMINI]) - 3)
                       @ [20010, 24179, 21488, 30340, 38169, 35823] @ ascii ''...''
                else [])),
          field = None, simplified_task = ascii ''open the app'', usage = None,
          all_results = Some ?rs\<rparr>"
    by blast
  then have four: "error (simplify_task_multiple_providers plain_interpreter Map.empty
        (ascii ''open the app'') [DEEPSEEK, DOUBAO, OPENAI, GEMINI] example_outs) =
      Some ([25152, 26377] @ ascii ''AI'' @ [24179, 21488, 37117, 22833, 36133, 20102]
               @ ascii '':'' @ [10, 10]
             @ (case map error_detail (take 3 ?rs) of
                  [] \<Rightarrow> []
                | [a] \<Rightarrow> a
                | [a, b] \<Rightarrow> a @ [10] @ b
                | a # b # c # _ \<Rightarrow> a @ [10] @ b @ [10] @ c)
             @ [10, 10, 36824, 26377] @ str_int 1
                       @ [20010, 24179, 21488, 30340, 38169, 35823] @ ascii ''...'')"
    by simp
  from multiple_providers_all_failed [OF refl h3]
  have "simplify_task_multiple_providers plain_interpreter Map.empty
        (ascii ''open the app'') [DEEPSEEK, DOUBAO, OPENAI] example_outs =
         \<lparr>success = False, provider = None,
          error = Some
            ([25152, 26377] @ ascii ''AI'' @ [24179, 21488, 37117, 22833, 36133, 20102]
               @ ascii '':'' @ [10, 10]
             @ (case map error_detail (take 3 ?rs3) of
                  [] \<Rightarrow> []
                | [a] \<Rightarrow> a
                | [a, b] \<Rightarrow> a @ [10] @ b
                | a # b # c # _ \<Rightarrow> a @ [10] @ b @ [10] @ c)
             @ (if 3 < length [DEEPSEEK, DOUBAO, OPENAI]
                then [10, 10, 36824, 26377] @ str_int (int (length [DEEPSEEK, DOUBAO, OPENAI]) - 3)
                       @ [20010, 24179, 21488, 30340, 38169, 35823] @ ascii ''...''
                else [])),
          field = None, simplified_task = ascii ''open the app'', usage = None,
          all_results = Some ?rs3\<rparr>"
    by blast
  then have three: "error (simplify_task_multiple_providers plain_interpreter Map.empty
        (ascii ''open the app'') [DEEPSEEK, DOUBAO, OPENAI] example_outs) =
      Some ([25152, 26377] @ ascii ''AI'' @ [24179, 21488, 37117, 22833, 36133, 20102]
               @ ascii '':'' @ [10, 10]
             @ (case map error_detail (take 3 ?rs3) of
                  [] \<Rightarrow> []
                | [a] \<Rightarrow> a
                | [a, b] \<Rightarrow> a @ [10] @ b
                | a # b # c # _ \<Rightarrow> a @ [10] @ b @ [10] @ c))"
    by simp
  from h have e4: "filter success ?rs = []" by (simp add: filter_empty_conv)
  from h3 have e3: "filter success ?rs3 = []" by (simp add: filter_empty_conv)
  from four have four': "error (simplify_task_multiple_providers plain_interpreter Map.empty
        (ascii ''open the app'') [DEEPSEEK, DOUBAO, OPENAI, GEMINI] example_outs) =
      Some ([25152, 26377] @ ascii ''AI'' @ [24179, 21488, 37117, 22833, 36133, 20102]
        @ ascii '':'' @ [10, 10]
        @ [8226] @ ascii '' DEEPSEEK: '' @ msg_not_configured (ascii ''deepseek'') @ [10]
        @ [8226] @ ascii '' DOUBAO: '' @ msg_not_configured (ascii ''doubao'') @ [10]
        @ [8226] @ ascii '' OPENAI: '' @ msg_not_configured (ascii ''openai'')
        @ [10, 10, 36824, 26377] @ ascii ''1''
        @ [20010, 24179, 21488, 30340, 38169, 35823] @ ascii ''...'')"
    unfolding no_results
    by (simp add: error_detail_def failure_def upper_def str_int_def ascii_def)
  from three have three': "error (simplify_task_multiple_providers plain_interpreter Map.empty
        (ascii ''open the app'') [DEEPSEEK, DOUBAO, OPENAI] example_outs) =
      Some ([25152, 26377] @ ascii ''AI'' @ [24179, 21488, 37117, 22833, 36133, 20102]
        @ ascii '':'' @ [10, 10]
        @ [8226] @ ascii '' DEEPSEEK: '' @ msg_not_configured (ascii ''deepseek'') @ [10]
        @ [8226] @ ascii '' DOUBAO: '' @ msg_not_configured (ascii ''doubao'') @ [10]
        @ [8226] @ ascii '' OPENAI: '' @ msg_not_configured (ascii ''openai''))"
    unfolding three_results
    by (simp add: error_detail_def failure_def upper_def ascii_def)
  from e4 four' e3 three' show ?thesis by blast
qed

section \<open>The manager: the status of the providers\<close>

lemma status_loop_keys:
  "status_loop configs ps st = Inr st' \<Longrightarrow> map fst st' = map fst st @ map value ps"
  by (induction ps arbitrary: st) (auto simp: and_then_def split: option.splits sum.splits)

lemma provider_status_keys:
  "get_provider_status configs = Inr st \<Longrightarrow> map fst st = map value all_providers"
  by (auto simp: get_provider_status_def dest: status_loop_keys)

lemma provider_status_raises:
  "get_provider_status [DEEPSEEK \<mapsto> JInt 5] = Inl (Raised AttributeError ''get'' (JInt 5))"
  by (simp add: get_provider_status_def all_providers_def dict_get_def and_then_def)

text \<open>
  Claim C7. The keys of the status are the nine provider names, but the value of a
  provider that has a configuration is not a boolean: it is what
  \<open>configs[provider].get("api_key")\<close> returns, here the key of deepseek itself.
\<close>

theorem provider_status_holds_api_key:
  "get_provider_status [DEEPSEEK \<mapsto> JObj example_config] =
     Inr [(ascii ''deepseek'', JStr (ascii ''sk-0123456789abcdefghij'')),
          (ascii ''doubao'', JBool False), (ascii ''yuanbao'', JBool False),
          (ascii ''openai'', JBool False), (ascii ''gemini'', JBool False),
          (ascii ''claude'', JBool False), (ascii ''glm'', JBool False),
          (ascii ''wenxin'', JBool False), (ascii ''tongyi'', JBool False)]"
  by (simp add: get_provider_status_def all_providers_def dict_get_def and_then_def
      example_config_def ascii_def)

end
